theory Spec2Isabelle
  imports Main
begin

section \<open>Values, store replies and responses\<close>

text \<open>
  The routes of the backend are embedded as functions from the relational store (the
  tables of the schema file) and the request to a response and the store after the
  request. A JavaScript string is a \<^typ>\<open>string\<close>; a value that may be
  \<^verbatim>\<open>undefined\<close> or \<^verbatim>\<open>null\<close> is an option. Identifiers generated by the
  store (UUIDs) and its clock are supplied by the environment of the request.
\<close>

type_synonym uuid = string
type_synonym timestamp = nat

text \<open>\<^verbatim>\<open>!!v\<close> for an optional string: undefined, null and the empty string are falsy.\<close>

definition truthy :: "string option \<Rightarrow> bool" where
  "truthy v = (case v of None \<Rightarrow> False | Some s \<Rightarrow> s \<noteq> [])"

text \<open>\<^verbatim>\<open>a || b\<close> on optional strings.\<close>

definition js_or :: "string option \<Rightarrow> string option \<Rightarrow> string option" where
  "js_or a b = (if truthy a then a else b)"

text \<open>
  A call of the store client resolves to an object \<^verbatim>\<open>{ data, error }\<close>, or the awaited
  promise rejects and the handler's \<^verbatim>\<open>catch\<close> block runs.
\<close>

datatype db_error = DbError (code: string) (message: string)

datatype 'a reply = Thrown | Reply (data: "'a option") (error: "db_error option")

text \<open>
  What can go wrong in a round trip for reasons outside the tables (network, service):
  the client reports an error object, or the call throws.
\<close>

datatype fault = Fail db_error | Throw

record env =
  now :: timestamp
  new_id :: uuid
  faults :: "nat \<Rightarrow> fault option"

definition round_trip :: "fault option \<Rightarrow> 'a reply \<Rightarrow> 'a reply" where
  "round_trip f r =
     (case f of None \<Rightarrow> r | Some Throw \<Rightarrow> Thrown | Some (Fail e) \<Rightarrow> Reply None (Some e))"

text \<open>\<^verbatim>\<open>.single()\<close>: exactly one row, or the error PGRST116 and no data.\<close>

definition single :: "'a list \<Rightarrow> 'a reply" where
  "single rows =
     (case rows of
        [r] \<Rightarrow> Reply (Some r) None
      | _ \<Rightarrow> Reply None (Some (DbError ''PGRST116''
            ''JSON object requested, multiple (or no) rows returned'')))"

text \<open>
  What the store keeps of a string written to a column of type VARCHAR(n): the string
  if it has at most n characters; its first n characters if all the characters beyond
  them are spaces; otherwise the write fails (error 22001). For a nullable column, NULL
  is kept.
\<close>

definition varchar :: "nat \<Rightarrow> string \<Rightarrow> string option" where
  "varchar n s =
     (if length s \<le> n then Some s
      else if list_all (\<lambda>c. c = CHR '' '') (drop n s) then Some (take n s)
      else None)"

definition varchar_null :: "nat \<Rightarrow> string option \<Rightarrow> string option option" where
  "varchar_null n v = (case v of None \<Rightarrow> Some None | Some s \<Rightarrow> map_option Some (varchar n s))"

definition unique_violation :: db_error where
  "unique_violation = DbError ''23505'' ''duplicate key value violates unique constraint''"

definition too_long :: db_error where
  "too_long = DbError ''22001'' ''value too long for type character varying''"

definition not_null_violation :: db_error where
  "not_null_violation = DbError ''23502'' ''null value violates not-null constraint''"

definition out_of_range :: db_error where
  "out_of_range = DbError ''22003'' ''integer out of range''"

section \<open>Tables\<close>

record fav_row =
  f_id :: uuid
  f_user_id :: uuid
  f_song_title :: string
  f_song_src :: "string option"
  f_song_img :: "string option"
  f_album_id :: "string option"
  f_album_cover :: "string option"
  f_artist :: "string option"
  f_added_at :: timestamp

record playlist_row =
  p_id :: uuid
  p_user_id :: uuid
  p_name :: string
  p_description :: "string option"
  p_cover_image :: "string option"
  p_created_at :: timestamp
  p_updated_at :: timestamp

text \<open>
  A row of \<^verbatim>\<open>playlist_songs\<close>. Its generated primary key is left out: no route
  reads or filters by it. The table has no album cover column; \<^verbatim>\<open>position\<close> is a
  nullable INTEGER.
\<close>

record ps_row =
  ps_playlist_id :: uuid
  ps_song_title :: string
  ps_song_src :: "string option"
  ps_song_img :: "string option"
  ps_album_id :: "string option"
  ps_artist :: "string option"
  ps_position :: "int option"
  ps_added_at :: timestamp

record profile_row =
  u_id :: uuid
  u_username :: string

record auth_user =
  a_id :: uuid
  a_email :: string

record store =
  favorites :: "fav_row list"
  playlists :: "playlist_row list"
  playlist_songs :: "ps_row list"
  user_profiles :: "profile_row list"
  auth_users :: "auth_user list"

section \<open>Responses\<close>

record song_view =
  title :: string
  src :: "string option"
  img :: "string option"
  albumId :: "string option"
  albumCover :: "string option"
  artist :: "string option"
  position :: "int option"
  addedAt :: timestamp

record playlist_view =
  v_id :: uuid
  v_name :: string
  v_description :: "string option"
  v_coverImage :: "string option"
  v_createdAt :: timestamp
  v_updatedAt :: timestamp
  v_songs :: "song_view list option"

datatype action = added | removed

datatype json =
    ErrorJson string
  | IsFavoriteJson bool
  | FavoriteJson string "fav_row option"
  | ToggleJson action string "fav_row option" bool
  | PlaylistJson string playlist_view
  | PlaylistsJson "playlist_view list"
  | SongsJson "string option" "song_view list"
  | Text string

datatype response = Response (status: nat) (body: json)

section \<open>Favorites\<close>

record fav_body =
  songTitle :: "string option"
  songSrc :: "string option"
  songImg :: "string option"
  albumId_b :: "string option"
  albumCover_b :: "string option"
  artist_b :: "string option"

text \<open>
  \<^verbatim>\<open>from('favorites').select('*').eq('user_id', u).eq('song_title', t).single()\<close>
\<close>

definition fav_matches :: "uuid \<Rightarrow> string \<Rightarrow> fav_row \<Rightarrow> bool" where
  "fav_matches u t r = (f_user_id r = u \<and> f_song_title r = t)"

definition select_favorite :: "fault option \<Rightarrow> store \<Rightarrow> uuid \<Rightarrow> string \<Rightarrow> fav_row reply" where
  "select_favorite f st u t = round_trip f (single (filter (fav_matches u t) (favorites st)))"

text \<open>
  \<^verbatim>\<open>from('favorites').insert([{...}]).select().single()\<close>: the store generates the id
  and the timestamp, and enforces the primary key, the VARCHAR columns and
  UNIQUE(user_id, song_title) on the row as it is kept.
\<close>

definition new_favorite :: "env \<Rightarrow> uuid \<Rightarrow> string \<Rightarrow> fav_body \<Rightarrow> fav_row" where
  "new_favorite e u t b =
     \<lparr> f_id = new_id e, f_user_id = u, f_song_title = t, f_song_src = songSrc b,
       f_song_img = songImg b, f_album_id = albumId_b b, f_album_cover = albumCover_b b,
       f_artist = artist_b b, f_added_at = now e \<rparr>"

text \<open>The row as the columns of the table keep it, if they can.\<close>

definition stored_favorite :: "fav_row \<Rightarrow> fav_row option" where
  "stored_favorite r =
     (case (varchar 200 (f_song_title r), varchar_null 100 (f_album_id r),
            varchar_null 100 (f_artist r)) of
        (Some t, Some al, Some ar) \<Rightarrow>
          Some (r\<lparr>f_song_title := t, f_album_id := al, f_artist := ar\<rparr>)
      | _ \<Rightarrow> None)"

definition insert_favorite :: "fault option \<Rightarrow> store \<Rightarrow> fav_row \<Rightarrow> fav_row reply \<times> store" where
  "insert_favorite f st r =
     (case f of
        Some Throw \<Rightarrow> (Thrown, st)
      | Some (Fail e) \<Rightarrow> (Reply None (Some e), st)
      | None \<Rightarrow>
          (case stored_favorite r of
             None \<Rightarrow> (Reply None (Some too_long), st)
           | Some row \<Rightarrow>
               if f_id row \<in> set (map f_id (favorites st))
                 \<or> (\<exists>x \<in> set (favorites st).
                        fav_matches (f_user_id row) (f_song_title row) x)
               then (Reply None (Some unique_violation), st)
               else (Reply (Some row) None, st\<lparr>favorites := favorites st @ [row]\<rparr>)))"

text \<open>\<^verbatim>\<open>from('favorites').delete().eq('user_id', u).eq('song_title', t)\<close>\<close>

definition delete_favorite :: "fault option \<Rightarrow> store \<Rightarrow> uuid \<Rightarrow> string \<Rightarrow> unit reply \<times> store" where
  "delete_favorite f st u t =
     (case f of
        Some Throw \<Rightarrow> (Thrown, st)
      | Some (Fail e) \<Rightarrow> (Reply None (Some e), st)
      | None \<Rightarrow>
          (Reply None None,
           st\<lparr>favorites := filter (\<lambda>r. \<not> fav_matches u t r) (favorites st)\<rparr>))"

text \<open>POST /api/favorites/add\<close>

definition fav_add :: "env \<Rightarrow> store \<Rightarrow> uuid \<Rightarrow> fav_body \<Rightarrow> response \<times> store" where
  "fav_add e st userId b =
     (if \<not> truthy (songTitle b) then (Response 400 (ErrorJson ''Song title is required''), st)
      else
        (case select_favorite (faults e 0) st userId (the (songTitle b)) of
          Thrown \<Rightarrow> (Response 500 (ErrorJson ''Internal server error''), st)
        | Reply existing _ \<Rightarrow>
            if existing \<noteq> None
            then (Response 400 (ErrorJson ''Song already in favorites''), st)
            else
              (case insert_favorite (faults e 1) st
                      (new_favorite e userId (the (songTitle b)) b) of
                 (Thrown, st') \<Rightarrow> (Response 500 (ErrorJson ''Internal server error''), st')
               | (Reply favorite err, st') \<Rightarrow>
                   if err \<noteq> None
                   then (Response 500 (ErrorJson ''Failed to add to favorites''), st')
                   else (Response 200
                           (FavoriteJson ''Song added to favorites successfully'' favorite), st'))))"

text \<open>
  POST /api/favorites/check. The second component is what the handler writes with
  \<^verbatim>\<open>console.error\<close>.
\<close>

definition fav_check :: "env \<Rightarrow> store \<Rightarrow> uuid \<Rightarrow> string option \<Rightarrow> response \<times> string list" where
  "fav_check e st userId t =
     (if \<not> truthy t then (Response 200 (IsFavoriteJson False), [])
      else
        (case select_favorite (faults e 0) st userId (the t) of
          Thrown \<Rightarrow> (Response 200 (IsFavoriteJson False), [''Error in check favorite:''])
        | Reply d err \<Rightarrow>
            if err \<noteq> None \<and> code (the err) \<noteq> ''PGRST116''
            then (Response 200 (IsFavoriteJson False), [''Error checking favorite:''])
            else (Response 200 (IsFavoriteJson (d \<noteq> None)), [])))"

text \<open>POST /api/favorites/toggle\<close>

definition fav_toggle :: "env \<Rightarrow> store \<Rightarrow> uuid \<Rightarrow> fav_body \<Rightarrow> response \<times> store" where
  "fav_toggle e st userId b =
     (if \<not> truthy (songTitle b) then (Response 400 (ErrorJson ''Song title is required''), st)
      else
        (case select_favorite (faults e 0) st userId (the (songTitle b)) of
          Thrown \<Rightarrow> (Response 500 (ErrorJson ''Internal server error''), st)
        | Reply existing _ \<Rightarrow>
            if existing \<noteq> None
            then
              (case delete_favorite (faults e 1) st userId (the (songTitle b)) of
                 (Thrown, st') \<Rightarrow> (Response 500 (ErrorJson ''Internal server error''), st')
               | (Reply _ err, st') \<Rightarrow>
                   if err \<noteq> None
                   then (Response 500 (ErrorJson ''Failed to remove from favorites''), st')
                   else (Response 200
                           (ToggleJson removed ''Song removed from favorites'' None False), st'))
            else
              (case insert_favorite (faults e 1) st
                      (new_favorite e userId (the (songTitle b)) b) of
                 (Thrown, st') \<Rightarrow> (Response 500 (ErrorJson ''Internal server error''), st')
               | (Reply favorite err, st') \<Rightarrow>
                   if err \<noteq> None
                   then (Response 500 (ErrorJson ''Failed to add to favorites''), st')
                   else (Response 200
                           (ToggleJson added ''Song added to favorites'' favorite True), st'))))"



text \<open>
  The constraint UNIQUE(user_id, song_title) of the favorites table, as a property of a
  store. Every write of the routes keeps it (see the lemmas below).
\<close>

definition fav_unique :: "store \<Rightarrow> bool" where
  "fav_unique st = distinct (map (\<lambda>r. (f_user_id r, f_song_title r)) (favorites st))"

text \<open>The titles in the favorites table are values of their column, VARCHAR(200).\<close>

definition fav_typed :: "store \<Rightarrow> bool" where
  "fav_typed st = list_all (\<lambda>r. length (f_song_title r) \<le> 200) (favorites st)"


section \<open>Strings\<close>

text \<open>
  \<^verbatim>\<open>String.prototype.trim\<close>: white space and line terminators are removed at both ends.
  The characters of a \<^typ>\<open>string\<close> are the code units below 256, so the white space
  is TAB, LF, VT, FF, CR, SP and NBSP.
\<close>

definition is_space :: "char \<Rightarrow> bool" where
  "is_space c = (c \<in> {CHR 0x09, CHR 0x0A, CHR 0x0B, CHR 0x0C, CHR 0x0D, CHR 0x20, CHR 0xA0})"

definition trim :: "string \<Rightarrow> string" where
  "trim s = rev (dropWhile is_space (rev (dropWhile is_space s)))"

text \<open>\<^verbatim>\<open>s.includes(t)\<close>\<close>

fun starts_with :: "string \<Rightarrow> string \<Rightarrow> bool" where
  "starts_with s [] = True"
| "starts_with [] (c # t) = False"
| "starts_with (d # s) (c # t) = (d = c \<and> starts_with s t)"

fun js_includes :: "string \<Rightarrow> string \<Rightarrow> bool" where
  "js_includes [] t = (t = [])"
| "js_includes (d # s) t = (starts_with (d # s) t \<or> js_includes s t)"

text \<open>The decimal digits of a number, as a template literal prints it.\<close>

fun show_nat :: "nat \<Rightarrow> string" where
  "show_nat n =
     (if n < 10 then [''0123456789'' ! n]
      else show_nat (n div 10) @ [''0123456789'' ! (n mod 10)])"

text \<open>
  The store's ILIKE, which \<^verbatim>\<open>.ilike(column, pattern)\<close> sends: the match is
  case-insensitive, and in the pattern \<^verbatim>\<open>%\<close> stands for any sequence of characters,
  \<^verbatim>\<open>_\<close> for any one character, a backslash makes the next character literal, and the
  REST layer reads \<^verbatim>\<open>*\<close> as \<^verbatim>\<open>%\<close>. The letters with two cases among the
  code units below 256 are the ASCII letters and the accented letters from 0xC0 to 0xDE
  (without the multiplication sign 0xD7), whose small forms lie 0x20 above them.
\<close>

definition capitals :: string where
  "capitals = ''ABCDEFGHIJKLMNOPQRSTUVWXYZ'' @
     [CHR 0xC0, CHR 0xC1, CHR 0xC2, CHR 0xC3, CHR 0xC4, CHR 0xC5, CHR 0xC6, CHR 0xC7,
      CHR 0xC8, CHR 0xC9, CHR 0xCA, CHR 0xCB, CHR 0xCC, CHR 0xCD, CHR 0xCE, CHR 0xCF,
      CHR 0xD0, CHR 0xD1, CHR 0xD2, CHR 0xD3, CHR 0xD4, CHR 0xD5, CHR 0xD6,
      CHR 0xD8, CHR 0xD9, CHR 0xDA, CHR 0xDB, CHR 0xDC, CHR 0xDD, CHR 0xDE]"

definition smalls :: string where
  "smalls = ''abcdefghijklmnopqrstuvwxyz'' @
     [CHR 0xE0, CHR 0xE1, CHR 0xE2, CHR 0xE3, CHR 0xE4, CHR 0xE5, CHR 0xE6, CHR 0xE7,
      CHR 0xE8, CHR 0xE9, CHR 0xEA, CHR 0xEB, CHR 0xEC, CHR 0xED, CHR 0xEE, CHR 0xEF,
      CHR 0xF0, CHR 0xF1, CHR 0xF2, CHR 0xF3, CHR 0xF4, CHR 0xF5, CHR 0xF6,
      CHR 0xF8, CHR 0xF9, CHR 0xFA, CHR 0xFB, CHR 0xFC, CHR 0xFD, CHR 0xFE]"

definition lower :: "char \<Rightarrow> char" where
  "lower c = (case map_of (zip capitals smalls) c of Some l \<Rightarrow> l | None \<Rightarrow> c)"

fun like :: "string \<Rightarrow> string \<Rightarrow> bool" where
  "like [] [] = True"
| "like [] (c # cs) = False"
| "like (p # ps) [] = (p = CHR ''%'' \<and> like ps [])"
| "like (p # ps) (c # cs) =
     (if p = CHR ''%'' then like ps (c # cs) \<or> like (p # ps) cs
      else if p = CHR ''_'' then like ps cs
      else if p = CHR 0x5C then (case ps of [] \<Rightarrow> False | q # qs \<Rightarrow> q = c \<and> like qs cs)
      else p = c \<and> like ps cs)"

definition ilike :: "string \<Rightarrow> string \<Rightarrow> bool" where
  "ilike pattern s =
     like (map lower (map (\<lambda>c. if c = CHR ''*'' then CHR ''%'' else c) pattern)) (map lower s)"

text \<open>Equality of names up to the case of letters.\<close>

definition same_name :: "string \<Rightarrow> string \<Rightarrow> bool" where
  "same_name a b = (map lower a = map lower b)"

text \<open>\<^verbatim>\<open>ORDER BY\<close>: a stable insertion sort by the comparison of the ordering.\<close>

fun insort_by :: "('a \<Rightarrow> 'a \<Rightarrow> bool) \<Rightarrow> 'a \<Rightarrow> 'a list \<Rightarrow> 'a list" where
  "insort_by le x [] = [x]"
| "insort_by le x (y # ys) = (if le x y then x # y # ys else y # insort_by le x ys)"

definition sort_by :: "('a \<Rightarrow> 'a \<Rightarrow> bool) \<Rightarrow> 'a list \<Rightarrow> 'a list" where
  "sort_by le xs = foldr (insort_by le) xs []"

section \<open>Playlists\<close>

definition internal_error :: response where
  "internal_error = Response 500 (ErrorJson ''Internal server error'')"

text \<open>\<^verbatim>\<open>from('playlists').select(...).eq('id', id).single()\<close>\<close>

definition select_playlist :: "fault option \<Rightarrow> store \<Rightarrow> uuid \<Rightarrow> playlist_row reply" where
  "select_playlist f st pid = round_trip f (single (filter (\<lambda>p. p_id p = pid) (playlists st)))"

text \<open>\<^verbatim>\<open>!playlist || playlist.user_id !== userId\<close>\<close>

definition not_owned :: "playlist_row option \<Rightarrow> uuid \<Rightarrow> bool" where
  "not_owned p userId = (case p of None \<Rightarrow> True | Some q \<Rightarrow> p_user_id q \<noteq> userId)"

text \<open>The playlist object of a response; \<^verbatim>\<open>songs\<close> is present in some routes only.\<close>

definition playlist_json :: "playlist_row \<Rightarrow> song_view list option \<Rightarrow> playlist_view" where
  "playlist_json p songs =
     \<lparr> v_id = p_id p, v_name = p_name p, v_description = p_description p,
       v_coverImage = p_cover_image p, v_createdAt = p_created_at p,
       v_updatedAt = p_updated_at p, v_songs = songs \<rparr>"

subsection \<open>POST /api/playlists/create\<close>

record create_body =
  c_name :: "string option"
  c_description :: "string option"
  c_coverImage :: "string option"

text \<open>
  \<^verbatim>\<open>from('playlists').select('id, name').eq('user_id', u).ilike('name', n).single()\<close>
\<close>

definition select_playlist_named :: "fault option \<Rightarrow> store \<Rightarrow> uuid \<Rightarrow> string \<Rightarrow> playlist_row reply" where
  "select_playlist_named f st u n =
     round_trip f (single (filter (\<lambda>p. p_user_id p = u \<and> ilike n (p_name p)) (playlists st)))"

text \<open>
  \<^verbatim>\<open>from('playlists').insert([{...}]).select().single()\<close>. The schema file gives the
  table a primary key and a name of type VARCHAR(200), and no uniqueness of names.
\<close>

definition insert_playlist :: "fault option \<Rightarrow> store \<Rightarrow> playlist_row \<Rightarrow> playlist_row reply \<times> store" where
  "insert_playlist f st r =
     (case f of
        Some Throw \<Rightarrow> (Thrown, st)
      | Some (Fail e) \<Rightarrow> (Reply None (Some e), st)
      | None \<Rightarrow>
          (case varchar 200 (p_name r) of
             None \<Rightarrow> (Reply None (Some too_long), st)
           | Some n \<Rightarrow>
               if p_id r \<in> set (map p_id (playlists st))
               then (Reply None (Some unique_violation), st)
               else (Reply (Some (r\<lparr>p_name := n\<rparr>)) None,
                     st\<lparr>playlists := playlists st @ [r\<lparr>p_name := n\<rparr>]\<rparr>)))"

definition already_exists :: "string \<Rightarrow> string" where
  "already_exists n =
     ''A playlist with the name '' @ [CHR 0x22] @ n @ [CHR 0x22] @ '' already exists''"

definition create_playlist :: "env \<Rightarrow> store \<Rightarrow> uuid \<Rightarrow> create_body \<Rightarrow> response \<times> store" where
  "create_playlist e st userId b =
     (if \<not> truthy (c_name b) \<or> trim (the (c_name b)) = []
      then (Response 400 (ErrorJson ''Playlist name is required''), st)
      else
        let playlistName = trim (the (c_name b)) in
        (case select_playlist_named (faults e 0) st userId playlistName of
           Thrown \<Rightarrow> (internal_error, st)
         | Reply existingPlaylist _ \<Rightarrow>
             if existingPlaylist \<noteq> None
             then (Response 400 (ErrorJson (already_exists playlistName)), st)
             else
               (case insert_playlist (faults e 1) st
                       \<lparr> p_id = new_id e, p_user_id = userId, p_name = playlistName,
                         p_description = js_or (c_description b) None,
                         p_cover_image = js_or (c_coverImage b) None,
                         p_created_at = now e, p_updated_at = now e \<rparr> of
                  (Thrown, st') \<Rightarrow> (internal_error, st')
                | (Reply playlist err, st') \<Rightarrow>
                    (case err of
                       Some er \<Rightarrow>
                         if code er = ''23505'' \<or> js_includes (message er) ''duplicate''
                            \<or> js_includes (message er) ''unique''
                         then (Response 400 (ErrorJson (already_exists playlistName)), st')
                         else (Response 500 (ErrorJson ''Failed to create playlist''), st')
                     | None \<Rightarrow>
                         (case playlist of
                            None \<Rightarrow> (internal_error, st')
                          | Some p \<Rightarrow>
                              (Response 200 (PlaylistJson ''Playlist created successfully''
                                 (playlist_json p (Some []))), st'))))))"

subsection \<open>PUT /api/playlists/:id\<close>

text \<open>
  A field of the body is \<^verbatim>\<open>undefined\<close> (\<open>None\<close>), \<^verbatim>\<open>null\<close> (\<open>Some None\<close>) or a
  string.
\<close>

record update_body =
  up_name :: "string option option"
  up_description :: "string option option"
  up_coverImage :: "string option option"

text \<open>The object \<^verbatim>\<open>updateData\<close>: a key is set or not.\<close>

record update_data =
  ud_name :: "string option"
  ud_description :: "string option option"
  ud_cover_image :: "string option option"
  ud_updated_at :: timestamp

definition apply_update :: "update_data \<Rightarrow> playlist_row \<Rightarrow> playlist_row" where
  "apply_update d p =
     p\<lparr> p_name := (case ud_name d of None \<Rightarrow> p_name p | Some n \<Rightarrow> n),
        p_description := (case ud_description d of None \<Rightarrow> p_description p | Some v \<Rightarrow> v),
        p_cover_image := (case ud_cover_image d of None \<Rightarrow> p_cover_image p | Some v \<Rightarrow> v),
        p_updated_at := ud_updated_at d \<rparr>"

text \<open>\<^verbatim>\<open>from('playlists').update(updateData).eq('id', id).select().single()\<close>\<close>

definition update_playlist ::
  "fault option \<Rightarrow> store \<Rightarrow> uuid \<Rightarrow> update_data \<Rightarrow> playlist_row reply \<times> store" where
  "update_playlist f st pid d =
     (case f of
        Some Throw \<Rightarrow> (Thrown, st)
      | Some (Fail e) \<Rightarrow> (Reply None (Some e), st)
      | None \<Rightarrow>
          (case varchar_null 200 (ud_name d) of
             None \<Rightarrow> (Reply None (Some too_long), st)
           | Some n \<Rightarrow>
               let rows = map (\<lambda>p. if p_id p = pid then apply_update (d\<lparr>ud_name := n\<rparr>) p
                                    else p) (playlists st)
               in (single (filter (\<lambda>p. p_id p = pid) rows), st\<lparr>playlists := rows\<rparr>)))"

definition put_playlist :: "env \<Rightarrow> store \<Rightarrow> uuid \<Rightarrow> uuid \<Rightarrow> update_body \<Rightarrow> response \<times> store" where
  "put_playlist e st userId pid b =
     (case select_playlist (faults e 0) st pid of
        Thrown \<Rightarrow> (internal_error, st)
      | Reply existingPlaylist _ \<Rightarrow>
          if not_owned existingPlaylist userId
          then (Response 404 (ErrorJson ''Playlist not found''), st)
          else
            (case up_name b of
               Some None \<Rightarrow> (internal_error, st)
             | _ \<Rightarrow>
                 let updateData =
                   \<lparr> ud_name = map_option (\<lambda>n. trim (the n)) (up_name b),
                     ud_description = up_description b,
                     ud_cover_image = up_coverImage b,
                     ud_updated_at = now e \<rparr>
                 in
                 (case update_playlist (faults e 1) st pid updateData of
                    (Thrown, st') \<Rightarrow> (internal_error, st')
                  | (Reply playlist err, st') \<Rightarrow>
                      if err \<noteq> None
                      then (Response 500 (ErrorJson ''Failed to update playlist''), st')
                      else
                        (case playlist of
                           None \<Rightarrow> (internal_error, st')
                         | Some p \<Rightarrow>
                             (Response 200 (PlaylistJson ''Playlist updated successfully''
                                (playlist_json p None)), st')))))"

subsection \<open>Songs of a playlist\<close>

text \<open>
  The object each of the three routes below builds from a row of \<^verbatim>\<open>playlist_songs\<close>
  (the same object literal in all three): \<^verbatim>\<open>albumCover\<close> is read from
  \<^verbatim>\<open>song.song_img\<close>.
\<close>

definition format_song :: "ps_row \<Rightarrow> song_view" where
  "format_song song =
     \<lparr> title = ps_song_title song, src = ps_song_src song, img = ps_song_img song,
       albumId = ps_album_id song, albumCover = ps_song_img song, artist = ps_artist song,
       position = ps_position song, addedAt = ps_added_at song \<rparr>"

text \<open>
  \<^verbatim>\<open>.order('position', { ascending: true }).order('added_at', { ascending: false })\<close>:
  ascending positions with NULL last, later additions first among equal positions.
\<close>

definition song_le :: "ps_row \<Rightarrow> ps_row \<Rightarrow> bool" where
  "song_le a b =
     (case (ps_position a, ps_position b) of
        (None, None) \<Rightarrow> ps_added_at b \<le> ps_added_at a
      | (None, Some y) \<Rightarrow> False
      | (Some x, None) \<Rightarrow> True
      | (Some x, Some y) \<Rightarrow> x < y \<or> (x = y \<and> ps_added_at b \<le> ps_added_at a))"

definition songs_of :: "store \<Rightarrow> uuid \<Rightarrow> ps_row list" where
  "songs_of st pid = filter (\<lambda>s. ps_playlist_id s = pid) (playlist_songs st)"

definition select_songs :: "fault option \<Rightarrow> store \<Rightarrow> uuid \<Rightarrow> ps_row list reply" where
  "select_songs f st pid = round_trip f (Reply (Some (sort_by song_le (songs_of st pid))) None)"

text \<open>GET /api/playlists/user: one read of the playlists, then one read per playlist.\<close>

definition select_user_playlists :: "fault option \<Rightarrow> store \<Rightarrow> uuid \<Rightarrow> playlist_row list reply" where
  "select_user_playlists f st u =
     round_trip f (Reply (Some (sort_by (\<lambda>a b. p_created_at b \<le> p_created_at a)
        (filter (\<lambda>p. p_user_id p = u) (playlists st)))) None)"

fun with_songs :: "env \<Rightarrow> store \<Rightarrow> nat \<Rightarrow> playlist_row list \<Rightarrow> playlist_view list option" where
  "with_songs e st k [] = Some []"
| "with_songs e st k (playlist # rest) =
     (case select_songs (faults e k) st (p_id playlist) of
        Thrown \<Rightarrow> None
      | Reply songs _ \<Rightarrow>
          (case with_songs e st (Suc k) rest of
             None \<Rightarrow> None
           | Some vs \<Rightarrow>
               Some (playlist_json playlist
                 (Some (map format_song (case songs of None \<Rightarrow> [] | Some l \<Rightarrow> l))) # vs)))"

definition get_user_playlists :: "env \<Rightarrow> store \<Rightarrow> uuid \<Rightarrow> response" where
  "get_user_playlists e st userId =
     (case select_user_playlists (faults e 0) st userId of
        Thrown \<Rightarrow> internal_error
      | Reply pls err \<Rightarrow>
          if err \<noteq> None then Response 500 (ErrorJson ''Failed to fetch playlists'')
          else
            (case pls of
               None \<Rightarrow> internal_error
             | Some ps \<Rightarrow>
                 (case with_songs e st 1 ps of
                    None \<Rightarrow> internal_error
                  | Some playlistsWithSongs \<Rightarrow> Response 200 (PlaylistsJson playlistsWithSongs))))"

text \<open>GET /api/playlists/:id/songs\<close>

definition get_playlist_songs :: "env \<Rightarrow> store \<Rightarrow> uuid \<Rightarrow> uuid \<Rightarrow> response" where
  "get_playlist_songs e st userId pid =
     (case select_playlist (faults e 0) st pid of
        Thrown \<Rightarrow> internal_error
      | Reply playlist _ \<Rightarrow>
          if not_owned playlist userId then Response 404 (ErrorJson ''Playlist not found'')
          else
            (case select_songs (faults e 1) st pid of
               Thrown \<Rightarrow> internal_error
             | Reply songs err \<Rightarrow>
                 if err \<noteq> None then Response 500 (ErrorJson ''Failed to fetch playlist songs'')
                 else Response 200 (SongsJson None
                        (map format_song (case songs of None \<Rightarrow> [] | Some l \<Rightarrow> l)))))"

subsection \<open>POST /api/playlists/:id/songs/add\<close>

text \<open>A song of the request: each property may come under either of two names.\<close>

record song_desc =
  d_songTitle :: "string option"
  d_title :: "string option"
  d_songSrc :: "string option"
  d_src :: "string option"
  d_songImg :: "string option"
  d_img :: "string option"
  d_albumId :: "string option"
  d_album_id :: "string option"
  d_artist :: "string option"

text \<open>An object of the array \<^verbatim>\<open>songsToAdd\<close>.\<close>

record ps_new =
  n_playlist_id :: uuid
  n_song_title :: "string option"
  n_song_src :: "string option"
  n_song_img :: "string option"
  n_album_id :: "string option"
  n_artist :: "string option"
  n_position :: int

text \<open>
  \<^verbatim>\<open>.select('position').eq('playlist_id', id).order('position', { ascending: false }).limit(1)\<close>:
  the first position in descending order, where the store puts NULL first.
\<close>

definition desc_first :: "int option \<Rightarrow> int option \<Rightarrow> bool" where
  "desc_first a b =
     (case a of None \<Rightarrow> True | Some x \<Rightarrow> (case b of None \<Rightarrow> False | Some y \<Rightarrow> y \<le> x))"

fun top_position :: "int option list \<Rightarrow> int option list" where
  "top_position [] = []"
| "top_position (p # ps) =
     (case top_position ps of [] \<Rightarrow> [p] | q # _ \<Rightarrow> [if desc_first p q then p else q])"

definition select_top_position :: "fault option \<Rightarrow> store \<Rightarrow> uuid \<Rightarrow> int option list reply" where
  "select_top_position f st pid =
     round_trip f (Reply (Some (top_position (map ps_position (songs_of st pid)))) None)"

definition next_position :: "int option list option \<Rightarrow> int" where
  "next_position existingSongs =
     (case existingSongs of
        Some (Some p # _) \<Rightarrow> if p \<noteq> 0 then p + 1 else 1
      | _ \<Rightarrow> 1)"

text \<open>
  \<^verbatim>\<open>.select('song_title').eq('playlist_id', id).in('song_title', songTitles)\<close>; the
  client writes a title that is undefined as the word \<^verbatim>\<open>undefined\<close> into the filter.
\<close>

definition select_titles_in ::
  "fault option \<Rightarrow> store \<Rightarrow> uuid \<Rightarrow> string option list \<Rightarrow> string list reply" where
  "select_titles_in f st pid songTitles =
     round_trip f (Reply (Some (map ps_song_title
       (filter (\<lambda>s. ps_song_title s \<in>
            set (map (\<lambda>t. case t of None \<Rightarrow> ''undefined'' | Some x \<Rightarrow> x) songTitles))
          (songs_of st pid)))) None)"

text \<open>
  \<^verbatim>\<open>from('playlist_songs').insert(songsToAdd).select()\<close>: all rows or none. The store
  checks NOT NULL, what the VARCHAR columns can keep, the range of INTEGER and the
  foreign key.
\<close>

definition row_ok :: "store \<Rightarrow> ps_new \<Rightarrow> db_error option" where
  "row_ok st r =
     (if n_song_title r = None then Some not_null_violation
      else if varchar_null 200 (n_song_title r) = None \<or> varchar_null 100 (n_album_id r) = None
        \<or> varchar_null 100 (n_artist r) = None
      then Some too_long
      else if \<not> (- 2147483648 \<le> n_position r \<and> n_position r \<le> 2147483647)
      then Some out_of_range
      else if n_playlist_id r \<notin> set (map p_id (playlists st))
      then Some (DbError ''23503'' ''violates foreign key constraint'')
      else None)"

text \<open>The row the store keeps of an object that passes these checks.\<close>

definition stored :: "timestamp \<Rightarrow> ps_new \<Rightarrow> ps_row" where
  "stored t r =
     \<lparr> ps_playlist_id = n_playlist_id r,
       ps_song_title = the (varchar 200 (the (n_song_title r))),
       ps_song_src = n_song_src r, ps_song_img = n_song_img r,
       ps_album_id = the (varchar_null 100 (n_album_id r)),
       ps_artist = the (varchar_null 100 (n_artist r)),
       ps_position = Some (n_position r), ps_added_at = t \<rparr>"

definition insert_songs ::
  "fault option \<Rightarrow> timestamp \<Rightarrow> store \<Rightarrow> ps_new list \<Rightarrow> ps_row list reply \<times> store" where
  "insert_songs f t st rows =
     (case f of
        Some Throw \<Rightarrow> (Thrown, st)
      | Some (Fail e) \<Rightarrow> (Reply None (Some e), st)
      | None \<Rightarrow>
          (case List.map_filter (row_ok st) rows of
             er # _ \<Rightarrow> (Reply None (Some er), st)
           | [] \<Rightarrow>
               (Reply (Some (map (stored t) rows)) None,
                st\<lparr>playlist_songs := playlist_songs st @ map (stored t) rows\<rparr>)))"

definition song_title_of :: "song_desc \<Rightarrow> string option" where
  "song_title_of song = js_or (d_songTitle song) (d_title song)"

definition songs_to_add :: "uuid \<Rightarrow> int \<Rightarrow> string list \<Rightarrow> song_desc list \<Rightarrow> ps_new list" where
  "songs_to_add pid nextPosition existingTitles songs =
     map (\<lambda>(index, song).
            \<lparr> n_playlist_id = pid,
              n_song_title = song_title_of song,
              n_song_src = js_or (d_songSrc song) (d_src song),
              n_song_img = js_or (d_songImg song) (d_img song),
              n_album_id = js_or (d_albumId song) (d_album_id song),
              n_artist = d_artist song,
              n_position = nextPosition + int index \<rparr>)
       (enumerate 0
          (filter (\<lambda>song. case song_title_of song of
                             None \<Rightarrow> True
                           | Some t \<Rightarrow> t \<notin> set existingTitles) songs))"

definition add_songs ::
  "env \<Rightarrow> store \<Rightarrow> uuid \<Rightarrow> uuid \<Rightarrow> song_desc list option \<Rightarrow> response \<times> store" where
  "add_songs e st userId pid songs =
     (if songs = None \<or> the songs = []
      then (Response 400 (ErrorJson ''Songs array is required''), st)
      else
        (case select_playlist (faults e 0) st pid of
           Thrown \<Rightarrow> (internal_error, st)
         | Reply playlist _ \<Rightarrow>
             if not_owned playlist userId
             then (Response 404 (ErrorJson ''Playlist not found''), st)
             else
               (case select_top_position (faults e 1) st pid of
                  Thrown \<Rightarrow> (internal_error, st)
                | Reply existingSongs _ \<Rightarrow>
                    (case select_titles_in (faults e 2) st pid
                            (map song_title_of (the songs)) of
                       Thrown \<Rightarrow> (internal_error, st)
                     | Reply existingPlaylistSongs _ \<Rightarrow>
                         let songsToAdd =
                           songs_to_add pid (next_position existingSongs)
                             (case existingPlaylistSongs of None \<Rightarrow> [] | Some l \<Rightarrow> l)
                             (the songs)
                         in
                         if songsToAdd = []
                         then (Response 400
                                 (ErrorJson ''All songs are already in the playlist''), st)
                         else
                           (case insert_songs (faults e 3) (now e) st songsToAdd of
                              (Thrown, st') \<Rightarrow> (internal_error, st')
                            | (Reply insertedSongs err, st') \<Rightarrow>
                                if err \<noteq> None
                                then (Response 500
                                        (ErrorJson ''Failed to add songs to playlist''), st')
                                else
                                  (case insertedSongs of
                                     None \<Rightarrow> (internal_error, st')
                                   | Some rows \<Rightarrow>
                                       (Response 200
                                          (SongsJson
                                             (Some (''Successfully added ''
                                                @ show_nat (length rows)
                                                @ '' song(s) to playlist''))
                                             (map format_song rows)), st')))))))"

section \<open>The authentication middleware\<close>

text \<open>
  The payload of a token, and what \<^verbatim>\<open>jwt.verify\<close> does with a token: it throws, or it
  returns the payload. The library is not part of the repository, so the middleware takes
  its verification function as a parameter.
\<close>

record jwt_payload =
  j_userId :: "string option"
  j_email :: "string option"
  j_username :: "string option"
  j_exp :: "int option"

datatype jwt_error = Malformed | BadSignature | Expired

datatype js_exn = ReferenceError string | TypeError string

record req_user =
  userId :: uuid
  email :: string
  username :: string

datatype auth_result = Next req_user | Reject response

text \<open>
  \<^verbatim>\<open>supabase.auth.admin.getUserById(userId)\<close>. User ids stand for well-formed
  UUIDs; a call that throws, as the client does on an id that is not one, is the fault
  \<open>Throw\<close>.
\<close>

definition get_user_by_id :: "fault option \<Rightarrow> store \<Rightarrow> uuid \<Rightarrow> auth_user reply" where
  "get_user_by_id f st uid =
     round_trip f
       (case filter (\<lambda>a. a_id a = uid) (auth_users st) of
          a # _ \<Rightarrow> Reply (Some a) None
        | [] \<Rightarrow> Reply None (Some (DbError ''user_not_found'' ''User not found'')))"

text \<open>\<^verbatim>\<open>from('user_profiles').select('username').eq('id', userId).single()\<close>\<close>

definition select_profile :: "fault option \<Rightarrow> store \<Rightarrow> uuid \<Rightarrow> profile_row reply" where
  "select_profile f st uid =
     round_trip f (single (filter (\<lambda>p. u_id p = uid) (user_profiles st)))"

text \<open>
  \<^verbatim>\<open>profile?.username || decoded.username || email.split('@')[0]\<close>. No variable
  \<^verbatim>\<open>email\<close> is declared in the module or the function, so evaluating the third operand
  throws a ReferenceError.
\<close>

definition resolve_username :: "profile_row option \<Rightarrow> jwt_payload \<Rightarrow> js_exn + string" where
  "resolve_username profile decoded =
     (if truthy (map_option u_username profile) then Inr (u_username (the profile))
      else if truthy (j_username decoded) then Inr (the (j_username decoded))
      else Inl (ReferenceError ''email is not defined''))"

text \<open>\<^verbatim>\<open>decoded.exp && decoded.exp * 1000 < Date.now()\<close>, the clock in milliseconds.\<close>

definition gate_expired :: "env \<Rightarrow> jwt_payload \<Rightarrow> bool" where
  "gate_expired e decoded =
     (case j_exp decoded of None \<Rightarrow> False | Some x \<Rightarrow> x \<noteq> 0 \<and> x * 1000 < int (now e))"

definition invalid_or_expired :: "nat \<Rightarrow> response" where
  "invalid_or_expired st = Response st (ErrorJson ''Invalid or expired token'')"

definition authenticateToken ::
  "(string \<Rightarrow> jwt_error + jwt_payload) \<Rightarrow> env \<Rightarrow> store \<Rightarrow> string option \<Rightarrow> auth_result" where
  "authenticateToken verify e st authHeader =
     (if \<not> truthy authHeader then Reject (Response 401 (ErrorJson ''Access token required''))
      else
        (case verify (the authHeader) of
           Inl _ \<Rightarrow> Reject (invalid_or_expired 403)
         | Inr decoded \<Rightarrow>
             if gate_expired e decoded then Reject (invalid_or_expired 401)
             else if \<not> truthy (j_userId decoded)
             then Reject (Response 401 (ErrorJson ''Invalid token: missing user ID''))
             else
               (case get_user_by_id (faults e 0) st (the (j_userId decoded)) of
                  Thrown \<Rightarrow> Reject (invalid_or_expired 403)
                | Reply authUser authError \<Rightarrow>
                    if authError \<noteq> None \<or> authUser = None
                    then Reject (Response 401 (ErrorJson ''Invalid token: user not found''))
                    else
                      (case select_profile (faults e 1) st (the (j_userId decoded)) of
                         Thrown \<Rightarrow> Reject (invalid_or_expired 403)
                       | Reply profile _ \<Rightarrow>
                           (case resolve_username profile decoded of
                              Inl _ \<Rightarrow> Reject (invalid_or_expired 403)
                            | Inr name \<Rightarrow>
                                Next \<lparr> userId = a_id (the authUser),
                                       email = a_email (the authUser),
                                       username = name \<rparr>)))))"

section \<open>Registration\<close>

record register_body =
  r_username :: "string option"
  r_email :: "string option"
  r_password :: "string option"

text \<open>\<^verbatim>\<open>from('user_profiles').select('username').eq('username', username).single()\<close>\<close>

definition select_profile_named :: "fault option \<Rightarrow> store \<Rightarrow> string \<Rightarrow> profile_row reply" where
  "select_profile_named f st n =
     round_trip f (single (filter (\<lambda>p. u_username p = n) (user_profiles st)))"

text \<open>
  \<^verbatim>\<open>supabase.auth.admin.createUser({ email, password, email_confirm: true })\<close>: the
  provider refuses an email that is registered, and gives the new user a fresh id.
\<close>

definition create_user :: "fault option \<Rightarrow> uuid \<Rightarrow> store \<Rightarrow> string \<Rightarrow> auth_user reply \<times> store" where
  "create_user f nid st em =
     (case f of
        Some Throw \<Rightarrow> (Thrown, st)
      | Some (Fail e) \<Rightarrow> (Reply None (Some e), st)
      | None \<Rightarrow>
          if em \<in> set (map a_email (auth_users st))
          then (Reply None (Some (DbError ''email_exists''
                  ''A user with this email address has already been registered'')), st)
          else if nid \<in> set (map a_id (auth_users st))
          then (Reply None (Some unique_violation), st)
          else (Reply (Some \<lparr> a_id = nid, a_email = em \<rparr>) None,
                st\<lparr>auth_users := auth_users st @ [\<lparr> a_id = nid, a_email = em \<rparr>]\<rparr>))"

text \<open>
  \<^verbatim>\<open>supabase.auth.admin.deleteUser(id)\<close>. The rows that reference the user go with it
  (ON DELETE CASCADE in the schema file), and the songs of the user's playlists with the
  playlists.
\<close>

definition delete_user :: "fault option \<Rightarrow> store \<Rightarrow> uuid \<Rightarrow> unit reply \<times> store" where
  "delete_user f st uid =
     (case f of
        Some Throw \<Rightarrow> (Thrown, st)
      | Some (Fail e) \<Rightarrow> (Reply None (Some e), st)
      | None \<Rightarrow>
          (Reply None None,
           st\<lparr> auth_users := filter (\<lambda>a. a_id a \<noteq> uid) (auth_users st),
               user_profiles := filter (\<lambda>p. u_id p \<noteq> uid) (user_profiles st),
               favorites := filter (\<lambda>r. f_user_id r \<noteq> uid) (favorites st),
               playlists := filter (\<lambda>p. p_user_id p \<noteq> uid) (playlists st),
               playlist_songs :=
                 filter (\<lambda>s. ps_playlist_id s \<notin>
                     set (map p_id (filter (\<lambda>p. p_user_id p = uid) (playlists st))))
                   (playlist_songs st) \<rparr>))"

text \<open>
  \<^verbatim>\<open>from('user_profiles').insert([{ id, username }])\<close>: the id is the primary key and
  references the user, the username is unique and kept as VARCHAR(50).
\<close>

definition insert_profile :: "fault option \<Rightarrow> store \<Rightarrow> profile_row \<Rightarrow> unit reply \<times> store" where
  "insert_profile f st r =
     (case f of
        Some Throw \<Rightarrow> (Thrown, st)
      | Some (Fail e) \<Rightarrow> (Reply None (Some e), st)
      | None \<Rightarrow>
          (case varchar 50 (u_username r) of
             None \<Rightarrow> (Reply None (Some too_long), st)
           | Some n \<Rightarrow>
               if u_id r \<in> set (map u_id (user_profiles st))
                 \<or> n \<in> set (map u_username (user_profiles st))
               then (Reply None (Some unique_violation), st)
               else if u_id r \<notin> set (map a_id (auth_users st))
               then (Reply None (Some (DbError ''23503'' ''violates foreign key constraint'')),
                     st)
               else (Reply None None,
                     st\<lparr>user_profiles := user_profiles st @ [r\<lparr>u_username := n\<rparr>]\<rparr>)))"

text \<open>POST /users/insert\<close>

definition register :: "env \<Rightarrow> store \<Rightarrow> register_body \<Rightarrow> response \<times> store" where
  "register e st b =
     (if \<not> truthy (r_username b) \<or> \<not> truthy (r_email b) \<or> \<not> truthy (r_password b)
      then (Response 400 (Text ''400::Please fill out all fields.''), st)
      else if length (the (r_password b)) < 8
      then (Response 400 (Text ''400::Password must be at least 8 characters long.''), st)
      else
        (case select_profile_named (faults e 0) st (the (r_username b)) of
           Thrown \<Rightarrow> (Response 500 (Text ''500::An error occurred during registration.''), st)
         | Reply existingProfile _ \<Rightarrow>
             if existingProfile \<noteq> None
             then (Response 400 (Text ''400::Username already exists.''), st)
             else
               (case create_user (faults e 1) (new_id e) st (the (r_email b)) of
                  (Thrown, st1) \<Rightarrow>
                    (Response 500 (Text ''500::An error occurred during registration.''), st1)
                | (Reply authData authError, st1) \<Rightarrow>
                    (case authError of
                       Some er \<Rightarrow>
                         if js_includes (message er) ''already registered''
                         then (Response 400 (Text ''400::Email already registered.''), st1)
                         else (Response 500
                                 (Text ''500::Registration failed. Please try again.''), st1)
                     | None \<Rightarrow>
                         (case authData of
                            None \<Rightarrow>
                              (Response 500
                                 (Text ''500::An error occurred during registration.''), st1)
                          | Some user \<Rightarrow>
                              (case insert_profile (faults e 2) st1
                                      \<lparr> u_id = a_id user, u_username = the (r_username b) \<rparr> of
                                 (Thrown, st2) \<Rightarrow>
                                   (Response 500
                                      (Text ''500::An error occurred during registration.''),
                                    st2)
                               | (Reply _ profileError, st2) \<Rightarrow>
                                   if profileError \<noteq> None
                                   then
                                     (case delete_user (faults e 3) st2 (a_id user) of
                                        (Thrown, st3) \<Rightarrow>
                                          (Response 500 (Text
                                             ''500::An error occurred during registration.''),
                                           st3)
                                      | (Reply _ _, st3) \<Rightarrow>
                                          (Response 500 (Text
                                             ''500::Registration failed. Please try again.''),
                                           st3))
                                   else (Response 200 (Text ''200::Registration successful!''),
                                         st2)))))))"

section \<open>Reference definitions for the properties\<close>

text \<open>
  Two definitions that follow the specification, not the code, to compare the route
  with: the next position is the largest position in the playlist plus one, or 1 for an
  empty playlist; the remaining songs are the submitted songs whose title is not among the
  titles in the playlist.
\<close>

definition spec_next_position :: "store \<Rightarrow> uuid \<Rightarrow> int" where
  "spec_next_position st pid =
     (if songs_of st pid = [] then 1
      else Max (set (map (\<lambda>s. the (ps_position s)) (songs_of st pid))) + 1)"

definition spec_remaining :: "store \<Rightarrow> uuid \<Rightarrow> song_desc list \<Rightarrow> song_desc list" where
  "spec_remaining st pid songs =
     filter (\<lambda>song. case song_title_of song of
                      None \<Rightarrow> True
                    | Some t \<Rightarrow> t \<notin> set (map ps_song_title (songs_of st pid))) songs"

text \<open>
  A submitted song that the columns of \<^verbatim>\<open>playlist_songs\<close> can keep: it has a
  title (the column is NOT NULL), and its title, album id and artist are values that
  VARCHAR(200), VARCHAR(100) and VARCHAR(100) accept.
\<close>

definition song_fits :: "song_desc \<Rightarrow> bool" where
  "song_fits song =
     (song_title_of song \<noteq> None
      \<and> varchar_null 200 (song_title_of song) \<noteq> None
      \<and> varchar_null 100 (js_or (d_albumId song) (d_album_id song)) \<noteq> None
      \<and> varchar_null 100 (d_artist song) \<noteq> None)"

text \<open>
  A song of a response shows a row of \<^verbatim>\<open>playlist_songs\<close>: its title and image are
  the row's, and its album cover is the row's song image (the row has no other image).
\<close>

definition from_row :: "store \<Rightarrow> song_view \<Rightarrow> bool" where
  "from_row st s =
     (\<exists>row \<in> set (playlist_songs st). title s = ps_song_title row
        \<and> img s = ps_song_img row \<and> albumCover s = ps_song_img row)"

text \<open>An identity, and a profile row, with a given id is in the store.\<close>

definition has_identity :: "store \<Rightarrow> uuid \<Rightarrow> bool" where
  "has_identity st uid = (uid \<in> set (map a_id (auth_users st)))"

definition has_profile :: "store \<Rightarrow> uuid \<Rightarrow> bool" where
  "has_profile st uid = (uid \<in> set (map u_id (user_profiles st)))"

section \<open>Example stores and environments\<close>

definition st_empty :: store where
  "st_empty = \<lparr> favorites = [], playlists = [], playlist_songs = [], user_profiles = [],
     auth_users = [] \<rparr>"

definition e_ok :: env where
  "e_ok = \<lparr> now = 100, new_id = ''id-1'', faults = (\<lambda>_. None) \<rparr>"

definition e_down :: env where
  "e_down = \<lparr> now = 100, new_id = ''id-1'',
     faults = (\<lambda>_. Some (Fail (DbError ''08006'' ''connection failure''))) \<rparr>"

definition e_fails :: "nat \<Rightarrow> env" where
  "e_fails n = \<lparr> now = 100, new_id = ''id-1'',
     faults = (\<lambda>k. if k = n then Some (Fail (DbError ''08006'' ''connection failure''))
                    else None) \<rparr>"


definition fav_req :: "string option \<Rightarrow> fav_body" where
  "fav_req t = \<lparr> songTitle = t, songSrc = Some ''x.mp3'', songImg = None, albumId_b = None,
     albumCover_b = None, artist_b = Some ''Ann'' \<rparr>"

definition ps_example :: "string \<Rightarrow> int \<Rightarrow> ps_row" where
  "ps_example t n =
     \<lparr> ps_playlist_id = ''p1'', ps_song_title = t, ps_song_src = Some ''s.mp3'',
       ps_song_img = Some ''s.png'', ps_album_id = None, ps_artist = None,
       ps_position = Some n, ps_added_at = 50 \<rparr>"

definition st_songs :: store where
  "st_songs = st_empty\<lparr>
     playlists := [\<lparr> p_id = ''p1'', p_user_id = ''u1'', p_name = ''abc'',
        p_description = Some ''trip songs'', p_cover_image = Some ''c.png'', p_created_at = 10, p_updated_at = 10 \<rparr>],
     playlist_songs := [ps_example ''Song A'' 1, ps_example ''Song Z'' 4] \<rparr>"

definition song_req :: "string \<Rightarrow> song_desc" where
  "song_req t =
     \<lparr> d_songTitle = None, d_title = Some t, d_songSrc = None, d_src = Some ''t.mp3'',
       d_songImg = None, d_img = Some ''t.png'', d_albumId = None, d_album_id = None,
       d_artist = Some ''Ann'' \<rparr>"

definition upd_example :: update_body where
  "upd_example = \<lparr> up_name = Some (Some ''  Road Trip ''), up_description = None,
     up_coverImage = Some None \<rparr>"

definition create_req :: "string \<Rightarrow> create_body" where
  "create_req n = \<lparr> c_name = Some n, c_description = None, c_coverImage = None \<rparr>"

definition st_two :: store where
  "st_two = st_empty\<lparr>playlists :=
     [\<lparr> p_id = ''p1'', p_user_id = ''u1'', p_name = ''a_c'', p_description = None,
        p_cover_image = None, p_created_at = 10, p_updated_at = 10 \<rparr>,
      \<lparr> p_id = ''p2'', p_user_id = ''u1'', p_name = ''abc'', p_description = None,
        p_cover_image = None, p_created_at = 11, p_updated_at = 11 \<rparr>]\<rparr>"

text \<open>
  Example tokens, all expiring at 2000 s. \<^verbatim>\<open>verify_example\<close> is a verifier that
  reads the clock before that time: it refuses tok-old as expired, and returns the payload
  of the other well-formed tokens. The middleware reads the clock after the verifier, so
  its own check of the expiry can only fire in the time between the two readings, as at
  2000001 ms.
\<close>

definition payload_example :: "string option \<Rightarrow> string option \<Rightarrow> jwt_payload" where
  "payload_example uid name =
     \<lparr> j_userId = uid, j_email = Some ''a@x.com'', j_username = name, j_exp = Some 2000 \<rparr>"

definition verify_example :: "string \<Rightarrow> jwt_error + jwt_payload" where
  "verify_example t =
     (if t = ''tok-alice'' then Inr (payload_example (Some ''u1'') (Some ''alice''))
      else if t = ''tok-no-name'' then Inr (payload_example (Some ''u1'') None)
      else if t = ''tok-no-subject'' then Inr (payload_example None (Some ''alice''))
      else if t = ''tok-ghost'' then Inr (payload_example (Some ''u9'') (Some ''ghost''))
      else if t = ''tok-old'' then Inl Expired
      else if t = ''tok-forged'' then Inl BadSignature
      else Inl Malformed)"

definition st_auth :: store where
  "st_auth = st_empty\<lparr>auth_users := [\<lparr> a_id = ''u1'', a_email = ''a@x.com'' \<rparr>]\<rparr>"

definition reg_alice :: register_body where
  "reg_alice = \<lparr> r_username = Some ''alice'', r_email = Some ''a@x.com'',
     r_password = Some ''password1'' \<rparr>"

definition e_insert_fails :: env where
  "e_insert_fails = \<lparr> now = 100, new_id = ''id-1'',
     faults = (\<lambda>k. if k = 2
                    then Some (Fail (DbError ''08006'' ''connection failure'')) else None) \<rparr>"

definition e_flaky :: env where
  "e_flaky = \<lparr> now = 100, new_id = ''id-1'',
     faults = (\<lambda>k. if k = 2 \<or> k = 3
                    then Some (Fail (DbError ''08006'' ''connection failure'')) else None) \<rparr>"

definition trip :: playlist_row where
  "trip = \<lparr> p_id = ''id-1'', p_user_id = ''u1'', p_name = ''Road Trip'', p_description = None,
     p_cover_image = None, p_created_at = 100, p_updated_at = 100 \<rparr>"

definition trip_song :: "string \<Rightarrow> int \<Rightarrow> ps_row" where
  "trip_song t n =
     \<lparr> ps_playlist_id = ''id-1'', ps_song_title = t, ps_song_src = Some ''t.mp3'',
       ps_song_img = Some ''t.png'', ps_album_id = None, ps_artist = Some ''Ann'',
       ps_position = Some n, ps_added_at = 100 \<rparr>"

section \<open>Properties of the favorites routes\<close>

lemma select_favorite_error_no_data:
  "select_favorite f st u t = Reply d (Some x) \<Longrightarrow> d = None"
  by (auto simp: select_favorite_def round_trip_def single_def
      split: option.splits fault.splits list.splits)

text \<open>
  C8. The check route always answers 200 with a boolean \<^verbatim>\<open>isFavorite\<close>, whatever the
  lookup does: a lookup error with code PGRST116 (row not found) gives false and nothing
  is logged; any other lookup error, and a thrown exception, is logged and gives false;
  a lookup without error gives whether a row came back.
\<close>

theorem fav_check_never_raises:
  "(\<exists>b. fst (fav_check e st u t) = Response 200 (IsFavoriteJson b))
   \<and> (truthy t \<and> select_favorite (faults e 0) st u (the t) = Reply d (Some x)
        \<and> code x = ''PGRST116''
      \<longrightarrow> fav_check e st u t = (Response 200 (IsFavoriteJson False), []))
   \<and> (truthy t \<and> select_favorite (faults e 0) st u (the t) = Reply d (Some x)
        \<and> code x \<noteq> ''PGRST116''
      \<longrightarrow> fst (fav_check e st u t) = Response 200 (IsFavoriteJson False)
          \<and> snd (fav_check e st u t) \<noteq> [])
   \<and> (truthy t \<and> select_favorite (faults e 0) st u (the t) = Thrown
      \<longrightarrow> fst (fav_check e st u t) = Response 200 (IsFavoriteJson False)
          \<and> snd (fav_check e st u t) \<noteq> [])
   \<and> (truthy t \<and> select_favorite (faults e 0) st u (the t) = Reply d None
      \<longrightarrow> fav_check e st u t = (Response 200 (IsFavoriteJson (d \<noteq> None)), []))"
proof -
  have total: "\<exists>b. fst (fav_check e st u t) = Response 200 (IsFavoriteJson b)"
    by (auto simp: fav_check_def split: reply.splits)
  have notfound: "fav_check e st u t = (Response 200 (IsFavoriteJson False), [])"
    if "truthy t" "select_favorite (faults e 0) st u (the t) = Reply d (Some x)"
      "code x = ''PGRST116''"
    using that select_favorite_error_no_data[OF that(2)] by (simp add: fav_check_def)
  have other: "fst (fav_check e st u t) = Response 200 (IsFavoriteJson False)
      \<and> snd (fav_check e st u t) \<noteq> []"
    if "truthy t" "select_favorite (faults e 0) st u (the t) = Reply d (Some x)"
      "code x \<noteq> ''PGRST116''"
    using that by (simp add: fav_check_def)
  have thrown: "fst (fav_check e st u t) = Response 200 (IsFavoriteJson False)
      \<and> snd (fav_check e st u t) \<noteq> []"
    if "truthy t" "select_favorite (faults e 0) st u (the t) = Thrown"
    using that by (simp add: fav_check_def)
  have found: "fav_check e st u t = (Response 200 (IsFavoriteJson (d \<noteq> None)), [])"
    if "truthy t" "select_favorite (faults e 0) st u (the t) = Reply d None"
    using that by (simp add: fav_check_def)
  from total notfound other thrown found show ?thesis by blast
qed

theorem fav_check_never_raises_witness:
  "truthy (Some ''Song A'')
   \<and> select_favorite (faults e_down 0) st_empty ''u1'' (the (Some ''Song A''))
       = Reply None (Some (DbError ''08006'' ''connection failure''))
   \<and> code (DbError ''08006'' ''connection failure'') \<noteq> ''PGRST116''
   \<and> fst (fav_check e_down st_empty ''u1'' (Some ''Song A''))
       = Response 200 (IsFavoriteJson False)
   \<and> snd (fav_check e_down st_empty ''u1'' (Some ''Song A'')) \<noteq> []"
proof -
  have a: "truthy (Some ''Song A'')" by (simp add: truthy_def)
  have b: "select_favorite (faults e_down 0) st_empty ''u1'' (the (Some ''Song A''))
       = Reply None (Some (DbError ''08006'' ''connection failure''))"
    by (simp add: select_favorite_def round_trip_def e_down_def)
  have c: "code (DbError ''08006'' ''connection failure'') \<noteq> ''PGRST116''" by simp
  from a b c fav_check_never_raises[of e_down st_empty "''u1''" "Some ''Song A''" None
      "DbError ''08006'' ''connection failure''"]
  show ?thesis by simp
qed

lemma varchar_short: "length s \<le> n \<Longrightarrow> varchar n s = Some s"
  by (simp add: varchar_def)

lemma varchar_length: "varchar n s = Some t \<Longrightarrow> length t \<le> n"
  by (auto simp: varchar_def split: if_splits)

lemma stored_favorite_fields:
  assumes "stored_favorite r = Some row"
  shows "f_id row = f_id r" and "f_user_id row = f_user_id r"
    and "varchar 200 (f_song_title r) = Some (f_song_title row)"
    and "f_song_src row = f_song_src r" and "f_song_img row = f_song_img r"
    and "f_album_cover row = f_album_cover r" and "f_added_at row = f_added_at r"
  using assms by (auto simp: stored_favorite_def split: option.splits)

lemma stored_favorite_short:
  assumes "stored_favorite r = Some row" and "length (f_song_title r) \<le> 200"
  shows "f_song_title row = f_song_title r"
  using stored_favorite_fields(3)[OF assms(1)] varchar_short[OF assms(2)] by simp






















lemma stored_favorite_key:
  "stored_favorite r = Some row \<Longrightarrow> f_user_id row = f_user_id r \<and> length (f_song_title row) \<le> 200"
  using stored_favorite_fields(2,3) varchar_length by blast

lemma insert_favorite_keeps_unique:
  "fav_unique st \<Longrightarrow> fav_unique (snd (insert_favorite f st r))"
  by (auto simp: insert_favorite_def fav_unique_def fav_matches_def
      split: option.splits fault.splits)

lemma insert_favorite_keeps_typed:
  "fav_typed st \<Longrightarrow> fav_typed (snd (insert_favorite f st r))"
  by (auto simp: insert_favorite_def fav_typed_def dest: stored_favorite_key
      split: option.splits fault.splits)

lemma delete_favorite_keeps_unique:
  "fav_unique st \<Longrightarrow> fav_unique (snd (delete_favorite f st u t))"
  by (auto simp: delete_favorite_def fav_unique_def distinct_map_filter
      split: option.splits fault.splits)

lemma delete_favorite_keeps_typed:
  "fav_typed st \<Longrightarrow> fav_typed (snd (delete_favorite f st u t))"
  by (auto simp: delete_favorite_def fav_typed_def list_all_iff
      split: option.splits fault.splits)

lemma fav_add_keeps_invariants:
  "fav_unique st \<Longrightarrow> fav_unique (snd (fav_add e st u b))"
  "fav_typed st \<Longrightarrow> fav_typed (snd (fav_add e st u b))"
  using insert_favorite_keeps_unique[of st "faults e 1" "new_favorite e u (the (songTitle b)) b"]
    insert_favorite_keeps_typed[of st "faults e 1" "new_favorite e u (the (songTitle b)) b"]
  by (auto simp: fav_add_def split: reply.splits prod.splits)

lemma fav_toggle_keeps_invariants:
  "fav_unique st \<Longrightarrow> fav_unique (snd (fav_toggle e st u b))"
  "fav_typed st \<Longrightarrow> fav_typed (snd (fav_toggle e st u b))"
  using insert_favorite_keeps_unique[of st "faults e 1" "new_favorite e u (the (songTitle b)) b"]
    delete_favorite_keeps_unique[of st "faults e 1" u "the (songTitle b)"]
    insert_favorite_keeps_typed[of st "faults e 1" "new_favorite e u (the (songTitle b)) b"]
    delete_favorite_keeps_typed[of st "faults e 1" u "the (songTitle b)"]
  by (auto simp: fav_toggle_def split: reply.splits prod.splits)



lemma toggle_back_eval:
  "fav_toggle e_ok
     (st_empty\<lparr>favorites := [new_favorite e_ok ''u1'' ''Song A'' (fav_req (Some ''Song A''))]\<rparr>)
     ''u1'' (fav_req (Some ''Song A''))
   = (Response 200 (ToggleJson removed ''Song removed from favorites'' None False), st_empty)"
  by (simp add: fav_toggle_def fav_req_def truthy_def st_empty_def e_ok_def
      select_favorite_def round_trip_def single_def fav_matches_def delete_favorite_def
      new_favorite_def)



section \<open>Properties of the playlist routes\<close>

lemma top_position_max:
  "ps \<noteq> [] \<Longrightarrow> None \<notin> set ps \<Longrightarrow> top_position ps = [Some (Max (the ` set ps))]"
proof (induction ps)
  case Nil
  then show ?case by simp
next
  case (Cons p ps)
  from Cons.prems obtain x where p: "p = Some x" by (cases p) auto
  show ?case
  proof (cases "ps = []")
    case True
    then show ?thesis by (simp add: p)
  next
    case False
    with Cons have ih: "top_position ps = [Some (Max (the ` set ps))]" by simp
    have fin: "finite (the ` set ps)" "the ` set ps \<noteq> {}" using False by auto
    have "the ` set (p # ps) = insert x (the ` set ps)" by (simp add: p)
    then have "Max (the ` set (p # ps)) = max x (Max (the ` set ps))"
      using Max_insert[OF fin] by simp
    then show ?thesis by (simp add: ih p desc_first_def max_def)
  qed
qed

lemma next_position_base:
  assumes "\<forall>s \<in> set (songs_of st pid). ps_position s \<noteq> None"
  shows "next_position (Some (top_position (map ps_position (songs_of st pid))))
    = spec_next_position st pid"
proof (cases "songs_of st pid = []")
  case True
  then show ?thesis by (simp add: next_position_def spec_next_position_def)
next
  case False
  from assms have nn: "None \<notin> set (map ps_position (songs_of st pid))" by auto
  have "top_position (map ps_position (songs_of st pid))
      = [Some (Max (the ` set (map ps_position (songs_of st pid))))]"
    using top_position_max[OF _ nn] False by simp
  moreover have "the ` set (map ps_position (songs_of st pid))
      = set (map (\<lambda>s. the (ps_position s)) (songs_of st pid))" by (simp add: image_image)
  ultimately show ?thesis using False
    by (simp add: next_position_def spec_next_position_def)
qed

lemma old_below_base:
  assumes "s \<in> set (songs_of st pid)"
  shows "the (ps_position s) < spec_next_position st pid"
proof -
  from assms have ne: "songs_of st pid \<noteq> []" by auto
  have "the (ps_position s) \<le> Max (set (map (\<lambda>s. the (ps_position s)) (songs_of st pid)))"
    using assms by (intro Max_ge) auto
  with ne show ?thesis by (simp add: spec_next_position_def)
qed

lemma insert_songs_accepted:
  assumes "insert_songs f t st rows = (Reply d None, st')"
  shows "d = Some (map (stored t) rows)
    \<and> st' = st\<lparr>playlist_songs := playlist_songs st @ map (stored t) rows\<rparr>"
  using assms by (auto simp: insert_songs_def split: option.splits fault.splits list.splits)

lemma filter_by_read_titles:
  "filter (\<lambda>song. case song_title_of song of None \<Rightarrow> True
       | Some t \<Rightarrow> t \<notin> set (map ps_song_title
           (filter (\<lambda>s. ps_song_title s \<in>
              set (map (\<lambda>t. case t of None \<Rightarrow> ''undefined'' | Some x \<Rightarrow> x)
                (map song_title_of songs))) (songs_of st pid)))) songs
   = spec_remaining st pid songs"
  unfolding spec_remaining_def
proof (rule filter_cong[OF refl])
  fix song assume m: "song \<in> set songs"
  show "(case song_title_of song of None \<Rightarrow> True
       | Some t \<Rightarrow> t \<notin> set (map ps_song_title
           (filter (\<lambda>s. ps_song_title s \<in>
              set (map (\<lambda>t. case t of None \<Rightarrow> ''undefined'' | Some x \<Rightarrow> x)
                (map song_title_of songs))) (songs_of st pid))))
     = (case song_title_of song of None \<Rightarrow> True
       | Some t \<Rightarrow> t \<notin> set (map ps_song_title (songs_of st pid)))"
  proof (cases "song_title_of song")
    case None
    then show ?thesis by simp
  next
    case (Some t)
    define T where "T = set (map (\<lambda>t. case t of None \<Rightarrow> ''undefined'' | Some x \<Rightarrow> x)
                (map song_title_of songs))"
    have "(case song_title_of song of None \<Rightarrow> ''undefined'' | Some x \<Rightarrow> x) \<in> T"
      unfolding T_def using m by (simp add: image_iff) blast
    with Some have "t \<in> T" by simp
    then have "(t \<in> set (map ps_song_title (filter (\<lambda>s. ps_song_title s \<in> T) (songs_of st pid))))
        = (t \<in> set (map ps_song_title (songs_of st pid)))" by auto
    with Some show ?thesis unfolding T_def by simp
  qed
qed

lemma songs_to_add_length:
  "length (songs_to_add pid n ex songs)
     = length (filter (\<lambda>song. case song_title_of song of None \<Rightarrow> True
                             | Some t \<Rightarrow> t \<notin> set ex) songs)"
  by (simp add: songs_to_add_def)


lemma songs_to_add_remaining:
  "songs_to_add pid n
      (map ps_song_title
         (filter (\<lambda>s. ps_song_title s \<in>
              set (map (\<lambda>t. case t of None \<Rightarrow> ''undefined'' | Some x \<Rightarrow> x)
                (map song_title_of songs))) (songs_of st pid)))
      songs
   = songs_to_add pid n [] (spec_remaining st pid songs)"
proof -
  have "filter (\<lambda>song. case song_title_of song of None \<Rightarrow> True | Some t \<Rightarrow> t \<notin> set [])
      (spec_remaining st pid songs) = spec_remaining st pid songs"
    by (rule filter_True) (simp split: option.splits)
  then show ?thesis
    unfolding songs_to_add_def filter_by_read_titles by simp
qed

lemma songs_to_add_all_length:
  "length (songs_to_add pid n [] songs) = length songs"
  by (simp add: songs_to_add_def split: option.splits cong: filter_cong)

lemma songs_to_add_all_nth:
  assumes "i < length songs"
  shows "songs_to_add pid n [] songs ! i =
     \<lparr> n_playlist_id = pid,
       n_song_title = song_title_of (songs ! i),
       n_song_src = js_or (d_songSrc (songs ! i)) (d_src (songs ! i)),
       n_song_img = js_or (d_songImg (songs ! i)) (d_img (songs ! i)),
       n_album_id = js_or (d_albumId (songs ! i)) (d_album_id (songs ! i)),
       n_artist = d_artist (songs ! i),
       n_position = n + int i \<rparr>"
proof -
  have "filter (\<lambda>song. case song_title_of song of None \<Rightarrow> True | Some t \<Rightarrow> t \<notin> set []) songs
      = songs"
    by (rule filter_True) (simp split: option.splits)
  with assms show ?thesis by (simp add: songs_to_add_def nth_enumerate_eq)
qed

lemma insert_songs_cases:
  "(snd (insert_songs f t st rows) = st
      \<and> (fst (insert_songs f t st rows) = Thrown
          \<or> (\<exists>er. fst (insert_songs f t st rows) = Reply None (Some er))))
   \<or> (insert_songs f t st rows
        = (Reply (Some (map (stored t) rows)) None,
           st\<lparr>playlist_songs := playlist_songs st @ map (stored t) rows\<rparr>)
      \<and> (\<forall>x \<in> set rows. row_ok st x = None))"
proof (cases f)
  case None
  show ?thesis
  proof (cases "List.map_filter (row_ok st) rows")
    case Nil
    then have "\<forall>x \<in> set rows. row_ok st x = None"
      by (auto simp: List.map_filter_def filter_empty_conv)
    with None Nil show ?thesis by (simp add: insert_songs_def)
  next
    case (Cons er ers)
    with None show ?thesis by (simp add: insert_songs_def)
  qed
next
  case (Some x)
  then show ?thesis by (cases x) (simp_all add: insert_songs_def)
qed

lemma insert_songs_passes:
  assumes "f = None" and "\<forall>x \<in> set rows. row_ok st x = None"
  shows "insert_songs f t st rows
    = (Reply (Some (map (stored t) rows)) None,
       st\<lparr>playlist_songs := playlist_songs st @ map (stored t) rows\<rparr>)"
proof -
  from assms(2) have "List.map_filter (row_ok st) rows = []"
    by (auto simp: List.map_filter_def filter_empty_conv)
  with assms(1) show ?thesis by (simp add: insert_songs_def)
qed

text \<open>
  The route on an owned playlist when its three reads succeed and every position in the
  playlist is set: the songs it sends to the store are the remaining songs, numbered
  from the next position.
\<close>

lemma add_songs_reads:
  assumes ne: "songs \<noteq> []"
    and own: "filter (\<lambda>p. p_id p = pid) (playlists st) = [p]" "p_user_id p = u"
    and reads: "faults e 0 = None" "faults e 1 = None" "faults e 2 = None"
    and nn: "\<forall>s \<in> set (songs_of st pid). ps_position s \<noteq> None"
  shows "add_songs e st u pid (Some songs) =
     (if spec_remaining st pid songs = []
      then (Response 400 (ErrorJson ''All songs are already in the playlist''), st)
      else
        (case insert_songs (faults e 3) (now e) st
                (songs_to_add pid (spec_next_position st pid) []
                   (spec_remaining st pid songs)) of
           (Thrown, st') \<Rightarrow> (internal_error, st')
         | (Reply insertedSongs err, st') \<Rightarrow>
             if err \<noteq> None
             then (Response 500 (ErrorJson ''Failed to add songs to playlist''), st')
             else
               (case insertedSongs of
                  None \<Rightarrow> (internal_error, st')
                | Some rows \<Rightarrow>
                    (Response 200
                       (SongsJson
                          (Some (''Successfully added '' @ show_nat (length rows)
                             @ '' song(s) to playlist''))
                          (map format_song rows)), st'))))"
proof -
  have sel: "select_playlist (faults e 0) st pid = Reply (Some p) None"
    using reads(1) own(1) by (simp add: select_playlist_def round_trip_def single_def)
  have mine: "\<not> not_owned (Some p) u" using own(2) by (simp add: not_owned_def)
  have top: "select_top_position (faults e 1) st pid
      = Reply (Some (top_position (map ps_position (songs_of st pid)))) None"
    using reads(2) by (simp add: select_top_position_def round_trip_def)
  have tit: "select_titles_in (faults e 2) st pid (map song_title_of songs)
      = Reply (Some (map ps_song_title
         (filter (\<lambda>s. ps_song_title s \<in>
              set (map (\<lambda>t. case t of None \<Rightarrow> ''undefined'' | Some x \<Rightarrow> x)
                (map song_title_of songs))) (songs_of st pid)))) None"
    using reads(3) by (simp add: select_titles_in_def round_trip_def)
  have empty: "(songs_to_add pid (spec_next_position st pid) [] (spec_remaining st pid songs) = [])
      = (spec_remaining st pid songs = [])"
    using songs_to_add_all_length[of pid "spec_next_position st pid" "spec_remaining st pid songs"]
    by (metis length_0_conv)
  define ex where "ex = map ps_song_title
         (filter (\<lambda>s. ps_song_title s \<in>
              set (map (\<lambda>t. case t of None \<Rightarrow> ''undefined'' | Some x \<Rightarrow> x)
                (map song_title_of songs))) (songs_of st pid))"
  have rem: "songs_to_add pid (spec_next_position st pid) ex songs
      = songs_to_add pid (spec_next_position st pid) [] (spec_remaining st pid songs)"
    unfolding ex_def by (rule songs_to_add_remaining)
  note tit = tit[folded ex_def]
  from ne sel mine top tit show ?thesis
    by (simp add: add_songs_def Let_def next_position_base[OF nn] rem empty)
qed

text \<open>
  A submitted song that the columns of \<^verbatim>\<open>playlist_songs\<close> can keep passes the
  store's checks at every position in the range of INTEGER, in a store that has the
  playlist.
\<close>

lemma song_fits_row_ok:
  assumes "song_fits song" and "pid \<in> set (map p_id (playlists st))"
    and "- 2147483648 \<le> n" and "n \<le> 2147483647"
  shows "row_ok st
     \<lparr> n_playlist_id = pid,
       n_song_title = song_title_of song,
       n_song_src = js_or (d_songSrc song) (d_src song),
       n_song_img = js_or (d_songImg song) (d_img song),
       n_album_id = js_or (d_albumId song) (d_album_id song),
       n_artist = d_artist song,
       n_position = n \<rparr> = None"
  using assms by (simp add: row_ok_def song_fits_def)

lemma remaining_rows_ok:
  assumes fits: "\<forall>s \<in> set songs. song_fits s"
    and fk: "pid \<in> set (map p_id (playlists st))"
    and lo: "- 2147483648 \<le> n" and hi: "n + int (length songs) \<le> 2147483648"
  shows "\<forall>x \<in> set (songs_to_add pid n [] songs). row_ok st x = None"
proof
  fix x assume "x \<in> set (songs_to_add pid n [] songs)"
  then obtain i where i: "i < length songs" and x: "x = songs_to_add pid n [] songs ! i"
    by (auto simp: in_set_conv_nth songs_to_add_all_length)
  from i fits have f: "song_fits (songs ! i)" by simp
  from i lo hi have r: "- 2147483648 \<le> n + int i" "n + int i \<le> 2147483647" by simp_all
  show "row_ok st x = None"
    unfolding x songs_to_add_all_nth[OF i] by (rule song_fits_row_ok[OF f fk r])
qed

text \<open>The rows the store keeps of the remaining songs.\<close>

lemma stored_rows_nth:
  assumes ok: "\<forall>x \<in> set (songs_to_add pid n [] songs). row_ok st x = None"
    and i: "i < length songs"
  shows "ps_position (map (stored t) (songs_to_add pid n [] songs) ! i) = Some (n + int i)
    \<and> (\<exists>title. song_title_of (songs ! i) = Some title
          \<and> varchar 200 title
              = Some (ps_song_title (map (stored t) (songs_to_add pid n [] songs) ! i)))
    \<and> ps_playlist_id (map (stored t) (songs_to_add pid n [] songs) ! i) = pid"
proof -
  from i have m: "songs_to_add pid n [] songs ! i \<in> set (songs_to_add pid n [] songs)"
    by (simp add: songs_to_add_all_length)
  with ok have "row_ok st (songs_to_add pid n [] songs ! i) = None" by blast
  then have "song_title_of (songs ! i) \<noteq> None
      \<and> varchar_null 200 (song_title_of (songs ! i)) \<noteq> None"
    unfolding songs_to_add_all_nth[OF i] by (simp add: row_ok_def split: if_splits)
  then obtain title v where tv: "song_title_of (songs ! i) = Some title" "varchar 200 title = Some v"
    by (auto simp: varchar_null_def)
  from i have "map (stored t) (songs_to_add pid n [] songs) ! i
      = stored t (songs_to_add pid n [] songs ! i)"
    by (simp add: songs_to_add_all_length)
  with tv show ?thesis
    unfolding songs_to_add_all_nth[OF i] by (simp add: stored_def)
qed

text \<open>
  C1, as the code has it. An add-songs request with a non-empty array of songs on a
  playlist the caller owns, when the three reads of the route succeed and every
  position in the playlist is set. The remaining songs are the submitted songs whose
  title is not in the playlist yet, and next is the largest position in the playlist
  plus one, or 1 for an empty playlist.
  \<^item> If no song remains, the answer is 400 and nothing is written.
  \<^item> Otherwise either the store refuses the insert (answer 500, nothing written), or the
    answer is 200 and the route has appended one row per remaining song, in the order
    of submission, and returns these rows: the row of the i-th remaining song has
    position next + i, the title the column keeps of the song's title, and the
    playlist's id; every new position is above every position that was there.
  \<^item> The answer is 200 whenever the insert is not interrupted, every remaining song
    has a title and fits the columns, and the positions next, ..., next + k - 1 are in
    the range of INTEGER.
\<close>

theorem add_songs_positions:
  assumes ne: "songs \<noteq> []"
    and own: "filter (\<lambda>p. p_id p = pid) (playlists st) = [p]" "p_user_id p = u"
    and reads: "faults e 0 = None" "faults e 1 = None" "faults e 2 = None"
    and nn: "\<forall>s \<in> set (songs_of st pid). ps_position s \<noteq> None"
    and run: "add_songs e st u pid (Some songs) = (r, st')"
  shows "(spec_remaining st pid songs = [] \<longrightarrow>
            r = Response 400 (ErrorJson ''All songs are already in the playlist'') \<and> st' = st)
     \<and> (spec_remaining st pid songs \<noteq> [] \<longrightarrow>
            (status r = 500 \<and> st' = st)
          \<or> (\<exists>rows.
                r = Response 200 (SongsJson
                      (Some (''Successfully added '' @ show_nat (length rows)
                         @ '' song(s) to playlist''))
                      (map format_song rows))
              \<and> st' = st\<lparr>playlist_songs := playlist_songs st @ rows\<rparr>
              \<and> length rows = length (spec_remaining st pid songs)
              \<and> (\<forall>i < length rows.
                    ps_position (rows ! i) = Some (spec_next_position st pid + int i)
                    \<and> (\<exists>title. song_title_of (spec_remaining st pid songs ! i) = Some title
                          \<and> varchar 200 title = Some (ps_song_title (rows ! i)))
                    \<and> ps_playlist_id (rows ! i) = pid)
              \<and> (\<forall>s \<in> set (songs_of st pid). \<forall>x \<in> set rows.
                    the (ps_position s) < the (ps_position x))))
     \<and> (spec_remaining st pid songs \<noteq> [] \<and> faults e 3 = None
          \<and> (\<forall>s \<in> set (spec_remaining st pid songs). song_fits s)
          \<and> - 2147483648 \<le> spec_next_position st pid
          \<and> spec_next_position st pid + int (length (spec_remaining st pid songs)) \<le> 2147483648
        \<longrightarrow> status r = 200)"
proof -
  define kept where "kept = spec_remaining st pid songs"
  define toAdd where "toAdd = songs_to_add pid (spec_next_position st pid) [] kept"
  define rows where "rows = map (stored (now e)) toAdd"
  note ev = add_songs_reads[OF ne own reads nn, folded kept_def, folded toAdd_def]
  have len: "length rows = length kept"
    by (simp add: rows_def toAdd_def songs_to_add_all_length)
  have none: "kept = [] \<longrightarrow>
      r = Response 400 (ErrorJson ''All songs are already in the playlist'') \<and> st' = st"
    using run ev by auto
  have some: "(status r = 500 \<and> st' = st)
      \<or> (\<exists>rows.
            r = Response 200 (SongsJson
                  (Some (''Successfully added '' @ show_nat (length rows)
                     @ '' song(s) to playlist''))
                  (map format_song rows))
          \<and> st' = st\<lparr>playlist_songs := playlist_songs st @ rows\<rparr>
          \<and> length rows = length kept
          \<and> (\<forall>i < length rows.
                ps_position (rows ! i) = Some (spec_next_position st pid + int i)
                \<and> (\<exists>title. song_title_of (kept ! i) = Some title
                      \<and> varchar 200 title = Some (ps_song_title (rows ! i)))
                \<and> ps_playlist_id (rows ! i) = pid)
          \<and> (\<forall>s \<in> set (songs_of st pid). \<forall>x \<in> set rows.
                the (ps_position s) < the (ps_position x)))"
    if k: "kept \<noteq> []"
  proof -
    from insert_songs_cases[of "faults e 3" "now e" st toAdd]
    consider (refused) "snd (insert_songs (faults e 3) (now e) st toAdd) = st"
        "fst (insert_songs (faults e 3) (now e) st toAdd) = Thrown
          \<or> (\<exists>er. fst (insert_songs (faults e 3) (now e) st toAdd) = Reply None (Some er))"
      | (accepted) "insert_songs (faults e 3) (now e) st toAdd
          = (Reply (Some rows) None, st\<lparr>playlist_songs := playlist_songs st @ rows\<rparr>)"
        "\<forall>x \<in> set toAdd. row_ok st x = None"
      unfolding rows_def by blast
    then show ?thesis
    proof cases
      case refused
      obtain rep st'' where ins: "insert_songs (faults e 3) (now e) st toAdd = (rep, st'')"
        by (cases "insert_songs (faults e 3) (now e) st toAdd")
      with refused have "st'' = st" "rep = Thrown \<or> (\<exists>er. rep = Reply None (Some er))"
        by simp_all
      with run ev k ins have "status r = 500 \<and> st' = st"
        by (auto simp: internal_error_def)
      then show ?thesis by (rule disjI1)
    next
      case accepted
      from run ev k accepted(1)
      have r: "r = Response 200 (SongsJson
                  (Some (''Successfully added '' @ show_nat (length rows)
                     @ '' song(s) to playlist''))
                  (map format_song rows))"
        and s: "st' = st\<lparr>playlist_songs := playlist_songs st @ rows\<rparr>"
        by simp_all
      have nth: "ps_position (rows ! i) = Some (spec_next_position st pid + int i)
            \<and> (\<exists>title. song_title_of (kept ! i) = Some title
                  \<and> varchar 200 title = Some (ps_song_title (rows ! i)))
            \<and> ps_playlist_id (rows ! i) = pid" if "i < length rows" for i
      proof -
        from that len have i: "i < length kept" by simp
        from stored_rows_nth[OF accepted(2)[unfolded toAdd_def] i, of "now e"]
        show ?thesis by (simp add: rows_def toAdd_def)
      qed
      have above: "the (ps_position s) < the (ps_position x)"
        if "s \<in> set (songs_of st pid)" "x \<in> set rows" for s x
      proof -
        from that(2) obtain i where i: "i < length rows" "x = rows ! i"
          by (auto simp: in_set_conv_nth)
        with nth have "the (ps_position x) = spec_next_position st pid + int i" by simp
        with old_below_base[OF that(1)] show ?thesis by simp
      qed
      from r s len nth above show ?thesis by blast
    qed
  qed
  have progress: "status r = 200"
    if k: "kept \<noteq> []" and f: "faults e 3 = None" and fits: "\<forall>s \<in> set kept. song_fits s"
      and lo: "- 2147483648 \<le> spec_next_position st pid"
      and hi: "spec_next_position st pid + int (length kept) \<le> 2147483648"
  proof -
    from own(1) have "p \<in> set (filter (\<lambda>p. p_id p = pid) (playlists st))" by simp
    then have fk: "pid \<in> set (map p_id (playlists st))" by auto
    from remaining_rows_ok[OF fits fk lo hi]
    have pass: "\<forall>x \<in> set toAdd. row_ok st x = None" by (simp add: toAdd_def)
    have ins: "insert_songs (faults e 3) (now e) st toAdd
        = (Reply (Some rows) None, st\<lparr>playlist_songs := playlist_songs st @ rows\<rparr>)"
      unfolding rows_def by (rule insert_songs_passes[OF f pass])
    from run ev k ins
    have "r = Response 200 (SongsJson
                (Some (''Successfully added '' @ show_nat (length rows)
                   @ '' song(s) to playlist''))
                (map format_song rows))"
      by simp
    then show ?thesis by simp
  qed
  from none some progress show ?thesis unfolding kept_def by blast
qed

text \<open>
  The route never looks at the errors of its reads. When the read of the largest position
  fails, it numbers the new rows from 1: in a playlist with positions 1 and 4, Song B gets
  position 1 and the answer is 200. When the read of the titles fails, no song counts as
  a duplicate: Song A, which is in the playlist, is inserted again, and the answer is 200.
\<close>

theorem add_songs_blind_reads:
  "add_songs (e_fails 1) st_songs ''u1'' ''p1'' (Some [song_req ''Song B''])
     = (Response 200 (SongsJson (Some ''Successfully added 1 song(s) to playlist'')
          [format_song ((trip_song ''Song B'' 1)\<lparr>ps_playlist_id := ''p1''\<rparr>)]),
        st_songs\<lparr>playlist_songs :=
          [ps_example ''Song A'' 1, ps_example ''Song Z'' 4,
           (trip_song ''Song B'' 1)\<lparr>ps_playlist_id := ''p1''\<rparr>]\<rparr>)
   \<and> spec_next_position st_songs ''p1'' = 5
   \<and> spec_remaining st_songs ''p1'' [song_req ''Song B''] = [song_req ''Song B'']
   \<and> add_songs (e_fails 2) st_songs ''u1'' ''p1'' (Some [song_req ''Song A''])
     = (Response 200 (SongsJson (Some ''Successfully added 1 song(s) to playlist'')
          [format_song ((trip_song ''Song A'' 5)\<lparr>ps_playlist_id := ''p1''\<rparr>)]),
        st_songs\<lparr>playlist_songs :=
          [ps_example ''Song A'' 1, ps_example ''Song Z'' 4,
           (trip_song ''Song A'' 5)\<lparr>ps_playlist_id := ''p1''\<rparr>]\<rparr>)
   \<and> spec_remaining st_songs ''p1'' [song_req ''Song A''] = []"
proof -
  have old: "songs_of st_songs ''p1'' = [ps_example ''Song A'' 1, ps_example ''Song Z'' 4]"
    by (simp add: songs_of_def st_songs_def ps_example_def)
  have a: "add_songs (e_fails 1) st_songs ''u1'' ''p1'' (Some [song_req ''Song B''])
     = (Response 200 (SongsJson (Some ''Successfully added 1 song(s) to playlist'')
          [format_song ((trip_song ''Song B'' 1)\<lparr>ps_playlist_id := ''p1''\<rparr>)]),
        st_songs\<lparr>playlist_songs :=
          [ps_example ''Song A'' 1, ps_example ''Song Z'' 4,
           (trip_song ''Song B'' 1)\<lparr>ps_playlist_id := ''p1''\<rparr>]\<rparr>)"
    by (simp add: add_songs_def e_fails_def st_songs_def st_empty_def song_req_def ps_example_def
      select_playlist_def round_trip_def single_def not_owned_def select_top_position_def
      songs_of_def desc_first_def next_position_def select_titles_in_def song_title_of_def
      js_or_def truthy_def songs_to_add_def enumerate_eq_zip insert_songs_def
      List.map_filter_def row_ok_def varchar_def varchar_null_def Let_def upt_rec stored_def
      trip_song_def)
  have b: "spec_next_position st_songs ''p1'' = 5"
    by (simp add: spec_next_position_def old ps_example_def)
  have c: "spec_remaining st_songs ''p1'' [song_req ''Song B''] = [song_req ''Song B'']"
    by (simp add: spec_remaining_def old ps_example_def song_req_def song_title_of_def js_or_def
        truthy_def)
  have d: "add_songs (e_fails 2) st_songs ''u1'' ''p1'' (Some [song_req ''Song A''])
     = (Response 200 (SongsJson (Some ''Successfully added 1 song(s) to playlist'')
          [format_song ((trip_song ''Song A'' 5)\<lparr>ps_playlist_id := ''p1''\<rparr>)]),
        st_songs\<lparr>playlist_songs :=
          [ps_example ''Song A'' 1, ps_example ''Song Z'' 4,
           (trip_song ''Song A'' 5)\<lparr>ps_playlist_id := ''p1''\<rparr>]\<rparr>)"
    by (simp add: add_songs_def e_fails_def st_songs_def st_empty_def song_req_def ps_example_def
      select_playlist_def round_trip_def single_def not_owned_def select_top_position_def
      songs_of_def desc_first_def next_position_def select_titles_in_def song_title_of_def
      js_or_def truthy_def songs_to_add_def enumerate_eq_zip insert_songs_def
      List.map_filter_def row_ok_def varchar_def varchar_null_def Let_def upt_rec stored_def
      trip_song_def)
  have f: "spec_remaining st_songs ''p1'' [song_req ''Song A''] = []"
    by (simp add: spec_remaining_def old ps_example_def song_req_def song_title_of_def js_or_def
        truthy_def)
  from a b c d f show ?thesis by simp
qed

theorem add_songs_positions_witness:
  "(\<exists>rows. add_songs e_ok st_songs ''u1'' ''p1''
        (Some [song_req ''Song A'', song_req ''Song B'', song_req ''Song C''])
      = (Response 200 (SongsJson (Some ''Successfully added 2 song(s) to playlist'')
           (map format_song rows)),
         st_songs\<lparr>playlist_songs := playlist_songs st_songs @ rows\<rparr>)
      \<and> length rows = 2
      \<and> ps_position (rows ! 0) = Some 5 \<and> ps_song_title (rows ! 0) = ''Song B''
      \<and> ps_position (rows ! 1) = Some 6 \<and> ps_song_title (rows ! 1) = ''Song C'')
   \<and> add_songs e_ok st_songs ''u1'' ''p1'' (Some [song_req ''Song A''])
      = (Response 400 (ErrorJson ''All songs are already in the playlist''), st_songs)"
proof -
  let ?songs = "[song_req ''Song A'', song_req ''Song B'', song_req ''Song C'']"
  let ?p = "\<lparr> p_id = ''p1'', p_user_id = ''u1'', p_name = ''abc'',
        p_description = Some ''trip songs'', p_cover_image = Some ''c.png'',
        p_created_at = 10, p_updated_at = 10 \<rparr>"
  obtain r st' where run: "add_songs e_ok st_songs ''u1'' ''p1'' (Some ?songs) = (r, st')"
    by (cases "add_songs e_ok st_songs ''u1'' ''p1'' (Some ?songs)")
  obtain r1 st1 where run1:
    "add_songs e_ok st_songs ''u1'' ''p1'' (Some [song_req ''Song A'']) = (r1, st1)"
    by (cases "add_songs e_ok st_songs ''u1'' ''p1'' (Some [song_req ''Song A''])")
  have ne: "?songs \<noteq> []" "[song_req ''Song A''] \<noteq> []" by simp_all
  have own: "filter (\<lambda>p. p_id p = ''p1'') (playlists st_songs) = [?p]" "p_user_id ?p = ''u1''"
    by (simp_all add: st_songs_def st_empty_def)
  have reads: "faults e_ok 0 = None" "faults e_ok 1 = None" "faults e_ok 2 = None"
    by (simp_all add: e_ok_def)
  have ins: "faults e_ok 3 = None" by (simp add: e_ok_def)
  have old: "songs_of st_songs ''p1'' = [ps_example ''Song A'' 1, ps_example ''Song Z'' 4]"
    by (simp add: songs_of_def st_songs_def ps_example_def)
  have nn: "\<forall>s \<in> set (songs_of st_songs ''p1''). ps_position s \<noteq> None"
    by (simp add: old ps_example_def)
  have kept: "spec_remaining st_songs ''p1'' ?songs = [song_req ''Song B'', song_req ''Song C'']"
    by (simp add: spec_remaining_def old ps_example_def song_req_def song_title_of_def js_or_def
        truthy_def)
  have kept1: "spec_remaining st_songs ''p1'' [song_req ''Song A''] = []"
    by (simp add: spec_remaining_def old ps_example_def song_req_def song_title_of_def js_or_def
        truthy_def)
  have base: "spec_next_position st_songs ''p1'' = 5"
    by (simp add: spec_next_position_def old ps_example_def)
  have t: "song_title_of (song_req ''Song B'') = Some ''Song B''"
    "song_title_of (song_req ''Song C'') = Some ''Song C''"
    by (simp_all add: song_req_def song_title_of_def js_or_def truthy_def)
  have v: "varchar 200 ''Song B'' = Some ''Song B''" "varchar 200 ''Song C'' = Some ''Song C''"
    by (simp_all add: varchar_def)
  have fits: "\<forall>s \<in> set (spec_remaining st_songs ''p1'' ?songs). song_fits s"
    unfolding kept
    by (simp add: song_fits_def song_req_def song_title_of_def js_or_def truthy_def
        varchar_def varchar_null_def)
  note T = add_songs_positions[OF ne(1) own reads nn run]
  note T1 = add_songs_positions[OF ne(2) own reads nn run1]
  from T1[THEN conjunct1] kept1
  have one: "r1 = Response 400 (ErrorJson ''All songs are already in the playlist'')"
    "st1 = st_songs" by simp_all
  have "spec_remaining st_songs ''p1'' ?songs \<noteq> [] \<and> faults e_ok 3 = None
      \<and> (\<forall>s \<in> set (spec_remaining st_songs ''p1'' ?songs). song_fits s)
      \<and> - 2147483648 \<le> spec_next_position st_songs ''p1''
      \<and> spec_next_position st_songs ''p1''
          + int (length (spec_remaining st_songs ''p1'' ?songs)) \<le> 2147483648"
    using ins fits by (simp add: kept base)
  with T[THEN conjunct2, THEN conjunct2] have ok: "status r = 200" by (rule mp)
  have kne: "spec_remaining st_songs ''p1'' ?songs \<noteq> []" by (simp add: kept)
  note D = T[THEN conjunct2, THEN conjunct1, THEN mp, OF kne]
  have "\<exists>rows.
      r = Response 200 (SongsJson
            (Some (''Successfully added '' @ show_nat (length rows) @ '' song(s) to playlist''))
            (map format_song rows))
    \<and> st' = st_songs\<lparr>playlist_songs := playlist_songs st_songs @ rows\<rparr>
    \<and> length rows = length (spec_remaining st_songs ''p1'' ?songs)
    \<and> (\<forall>i < length rows.
          ps_position (rows ! i) = Some (spec_next_position st_songs ''p1'' + int i)
          \<and> (\<exists>title. song_title_of (spec_remaining st_songs ''p1'' ?songs ! i) = Some title
                \<and> varchar 200 title = Some (ps_song_title (rows ! i)))
          \<and> ps_playlist_id (rows ! i) = ''p1'')
    \<and> (\<forall>s \<in> set (songs_of st_songs ''p1''). \<forall>x \<in> set rows.
          the (ps_position s) < the (ps_position x))"
    by (rule disjE[OF D]) (simp add: ok, assumption)
  then obtain rows where rows:
    "r = Response 200 (SongsJson
          (Some (''Successfully added '' @ show_nat (length rows) @ '' song(s) to playlist''))
          (map format_song rows))"
    "st' = st_songs\<lparr>playlist_songs := playlist_songs st_songs @ rows\<rparr>"
    "length rows = length (spec_remaining st_songs ''p1'' ?songs)"
    "\<forall>i < length rows.
        ps_position (rows ! i) = Some (spec_next_position st_songs ''p1'' + int i)
        \<and> (\<exists>title. song_title_of (spec_remaining st_songs ''p1'' ?songs ! i) = Some title
              \<and> varchar 200 title = Some (ps_song_title (rows ! i)))
        \<and> ps_playlist_id (rows ! i) = ''p1''"
    by (elim exE conjE) (rule that, assumption+)
  from rows(3) have l: "length rows = 2" by (simp add: kept)
  from rows(4) l have "ps_position (rows ! 0) = Some (spec_next_position st_songs ''p1'' + int 0)
      \<and> (\<exists>title. song_title_of (spec_remaining st_songs ''p1'' ?songs ! 0) = Some title
              \<and> varchar 200 title = Some (ps_song_title (rows ! 0)))"
    by simp
  then have r0: "ps_position (rows ! 0) = Some 5 \<and> ps_song_title (rows ! 0) = ''Song B''"
    unfolding kept base by (auto simp: t v)
  from rows(4) l have "ps_position (rows ! 1) = Some (spec_next_position st_songs ''p1'' + int 1)
      \<and> (\<exists>title. song_title_of (spec_remaining st_songs ''p1'' ?songs ! 1) = Some title
              \<and> varchar 200 title = Some (ps_song_title (rows ! 1)))"
    by simp
  then have r1: "ps_position (rows ! 1) = Some 6 \<and> ps_song_title (rows ! 1) = ''Song C''"
    unfolding kept base by (auto simp: t v)
  have msg: "''Successfully added '' @ show_nat (length rows) @ '' song(s) to playlist''
      = ''Successfully added 2 song(s) to playlist''"
    unfolding l by simp
  have "add_songs e_ok st_songs ''u1'' ''p1'' (Some ?songs)
      = (Response 200 (SongsJson (Some ''Successfully added 2 song(s) to playlist'')
           (map format_song rows)),
         st_songs\<lparr>playlist_songs := playlist_songs st_songs @ rows\<rparr>)"
    unfolding run rows(1) rows(2) msg by (rule refl)
  with l r0 r1 have first: "\<exists>rows. add_songs e_ok st_songs ''u1'' ''p1'' (Some ?songs)
      = (Response 200 (SongsJson (Some ''Successfully added 2 song(s) to playlist'')
           (map format_song rows)),
         st_songs\<lparr>playlist_songs := playlist_songs st_songs @ rows\<rparr>)
      \<and> length rows = 2
      \<and> ps_position (rows ! 0) = Some 5 \<and> ps_song_title (rows ! 0) = ''Song B''
      \<and> ps_position (rows ! 1) = Some 6 \<and> ps_song_title (rows ! 1) = ''Song C''"
    by (intro exI[of _ rows]) simp
  have second: "add_songs e_ok st_songs ''u1'' ''p1'' (Some [song_req ''Song A''])
      = (Response 400 (ErrorJson ''All songs are already in the playlist''), st_songs)"
    unfolding run1 one by (rule refl)
  from first second show ?thesis by (rule conjI)
qed

text \<open>
  The route never writes a row without a position, so the condition on the positions in
  the theorem above holds in every store that the route has filled. A request all of
  whose songs are in the playlist already is answered 400 and writes nothing.
\<close>

lemma insert_songs_keeps_positions:
  assumes "\<forall>s \<in> set (playlist_songs st). ps_position s \<noteq> None"
  shows "\<forall>s \<in> set (playlist_songs (snd (insert_songs f t st rows))). ps_position s \<noteq> None"
  using assms
  by (auto simp: insert_songs_def stored_def split: option.splits fault.splits list.splits)

lemma add_songs_store:
  "snd (add_songs e st u pid songs) = st
   \<or> snd (add_songs e st u pid songs)
       = snd (insert_songs (faults e 3) (now e) st
           (songs_to_add pid (next_position (data (select_top_position (faults e 1) st pid)))
              (case data (select_titles_in (faults e 2) st pid (map song_title_of (the songs)))
               of None \<Rightarrow> [] | Some l \<Rightarrow> l) (the songs)))"
proof (cases "select_playlist (faults e 0) st pid")
  case Thrown
  then show ?thesis by (simp add: add_songs_def)
next
  case (Reply playlist er0)
  show ?thesis
  proof (cases "select_top_position (faults e 1) st pid")
    case Thrown
    with Reply show ?thesis by (simp add: add_songs_def)
  next
    case top: (Reply existingSongs er1)
    show ?thesis
    proof (cases "select_titles_in (faults e 2) st pid (map song_title_of (the songs))")
      case Thrown
      with Reply top show ?thesis by (simp add: add_songs_def)
    next
      case tit: (Reply existing er2)
      define toAdd where "toAdd = songs_to_add pid (next_position existingSongs)
          (case existing of None \<Rightarrow> [] | Some l \<Rightarrow> l) (the songs)"
      obtain rep st' where ins: "insert_songs (faults e 3) (now e) st toAdd = (rep, st')"
        by (cases "insert_songs (faults e 3) (now e) st toAdd")
      have "snd (add_songs e st u pid songs) = st \<or> snd (add_songs e st u pid songs) = st'"
        using Reply top tit ins
        by (cases rep; cases "data rep")
          (simp_all add: add_songs_def Let_def toAdd_def[symmetric])
      with top tit ins show ?thesis by (auto simp: toAdd_def)
    qed
  qed
qed

lemma add_songs_keeps_positions:
  assumes "\<forall>s \<in> set (playlist_songs st). ps_position s \<noteq> None"
  shows "\<forall>s \<in> set (playlist_songs (snd (add_songs e st u pid songs))). ps_position s \<noteq> None"
proof (cases "snd (add_songs e st u pid songs) = st")
  case True
  with assms show ?thesis by simp
next
  case False
  with add_songs_store[of e st u pid songs] obtain rows where
    "snd (add_songs e st u pid songs) = snd (insert_songs (faults e 3) (now e) st rows)"
    by blast
  with insert_songs_keeps_positions[OF assms] show ?thesis by simp
qed

lemma add_songs_all_duplicates:
  assumes "songs \<noteq> []" and "faults e 0 = None" and "faults e 1 \<noteq> Some Throw"
    and "faults e 2 = None"
    and "filter (\<lambda>p. p_id p = pid) (playlists st) = [p]" and "p_user_id p = u"
    and "\<forall>s \<in> set songs. \<exists>t. song_title_of s = Some t
            \<and> t \<in> set (map ps_song_title (songs_of st pid))"
  shows "add_songs e st u pid (Some songs)
    = (Response 400 (ErrorJson ''All songs are already in the playlist''), st)"
proof -
  have sel: "select_playlist (faults e 0) st pid = Reply (Some p) None"
    using assms(2,5) by (simp add: select_playlist_def round_trip_def single_def)
  have own: "\<not> not_owned (Some p) u" using assms(6) by (simp add: not_owned_def)
  obtain d er where top: "select_top_position (faults e 1) st pid = Reply d er"
    using assms(3)
    by (cases "faults e 1"; cases "the (faults e 1)")
      (auto simp: select_top_position_def round_trip_def)
  have tit: "select_titles_in (faults e 2) st pid (map song_title_of songs)
      = Reply (Some (map ps_song_title
         (filter (\<lambda>s. ps_song_title s \<in>
              set (map (\<lambda>t. case t of None \<Rightarrow> ''undefined'' | Some x \<Rightarrow> x)
                (map song_title_of songs))) (songs_of st pid)))) None"
    using assms(4) by (simp add: select_titles_in_def round_trip_def)
  define ex where "ex = map ps_song_title
         (filter (\<lambda>s. ps_song_title s \<in>
              set (map (\<lambda>t. case t of None \<Rightarrow> ''undefined'' | Some x \<Rightarrow> x)
                (map song_title_of songs))) (songs_of st pid))"
  have none: "spec_remaining st pid songs = []"
    using assms(7) by (auto simp: spec_remaining_def filter_empty_conv)
  have "filter (\<lambda>song. case song_title_of song of None \<Rightarrow> True
                             | Some t \<Rightarrow> t \<notin> set ex) songs = spec_remaining st pid songs"
    unfolding ex_def by (rule filter_by_read_titles)
  then have "length (songs_to_add pid (next_position d) ex songs) = 0"
    by (simp add: songs_to_add_length none)
  then have empty: "songs_to_add pid (next_position d) ex songs = []" by simp
  note tit = tit[folded ex_def]
  from assms(1) sel own top tit empty show ?thesis
    by (simp add: add_songs_def Let_def)
qed

lemma set_insort_by: "set (insort_by le x xs) = insert x (set xs)"
  by (induction xs) auto

lemma set_sort_by: "set (sort_by le xs) = set xs"
  by (induction xs) (simp_all add: sort_by_def set_insort_by)

lemma format_song_cover:
  "albumCover (format_song row) = ps_song_img row \<and> img (format_song row) = ps_song_img row
   \<and> title (format_song row) = ps_song_title row"
  by (simp add: format_song_def)

lemma select_songs_rows:
  "select_songs f st pid = Reply (Some rows) er \<Longrightarrow> set rows \<subseteq> set (playlist_songs st)"
  by (auto simp: select_songs_def round_trip_def songs_of_def set_sort_by
      split: option.splits fault.splits)

lemma formatted_from_row:
  "set rows \<subseteq> set (playlist_songs st) \<Longrightarrow> s \<in> set (map format_song rows) \<Longrightarrow> from_row st s"
  by (auto simp: from_row_def format_song_def)

lemma with_songs_from_rows:
  "with_songs e st k ps = Some vs \<Longrightarrow> v \<in> set vs \<Longrightarrow> v_songs v = Some songs
     \<Longrightarrow> s \<in> set songs \<Longrightarrow> from_row st s"
proof (induction ps arbitrary: k vs)
  case Nil
  then show ?case by simp
next
  case (Cons p ps)
  from Cons.prems(1) obtain d er vs' where
    sel: "select_songs (faults e k) st (p_id p) = Reply d er"
    and rest: "with_songs e st (Suc k) ps = Some vs'"
    and vs: "vs = playlist_json p (Some (map format_song (case d of None \<Rightarrow> [] | Some l \<Rightarrow> l))) # vs'"
    by (auto split: reply.splits option.splits)
  show ?case
  proof (cases "v \<in> set vs'")
    case True
    from Cons.IH[OF rest True Cons.prems(3,4)] show ?thesis .
  next
    case False
    with Cons.prems(2) vs
    have v: "v = playlist_json p (Some (map format_song (case d of None \<Rightarrow> [] | Some l \<Rightarrow> l)))"
      by simp
    with Cons.prems(3) have songs: "songs = map format_song (case d of None \<Rightarrow> [] | Some l \<Rightarrow> l)"
      by (simp add: playlist_json_def)
    show ?thesis
    proof (cases d)
      case None
      with songs Cons.prems(4) show ?thesis by simp
    next
      case (Some rows)
      from select_songs_rows[OF sel[unfolded Some]] songs Some Cons.prems(4)
      show ?thesis by (auto intro: formatted_from_row)
    qed
  qed
qed

text \<open>
  C10. In the answer of each of the three routes that return the songs of a playlist
  (the list of the user's playlists with their songs, the songs of one playlist, and the
  songs just added), the album cover of every song equals its image, and both are the
  song image of a row of \<^verbatim>\<open>playlist_songs\<close>, whose rows hold no album cover.
\<close>

theorem album_cover_is_song_img:
  "(get_user_playlists e st u = Response 200 (PlaylistsJson pls)
      \<longrightarrow> (\<forall>v \<in> set pls. \<forall>songs. v_songs v = Some songs
            \<longrightarrow> (\<forall>s \<in> set songs. albumCover s = img s \<and> from_row st s)))
   \<and> (get_playlist_songs e st u pid = Response 200 (SongsJson m songs)
      \<longrightarrow> (\<forall>s \<in> set songs. albumCover s = img s \<and> from_row st s))
   \<and> (add_songs e st u pid req = (Response 200 (SongsJson m' songs'), st')
      \<longrightarrow> (\<forall>s \<in> set songs'. albumCover s = img s \<and> from_row st' s))"
proof (intro conjI impI ballI allI)
  fix v songs s
  assume r: "get_user_playlists e st u = Response 200 (PlaylistsJson pls)"
    and v: "v \<in> set pls" "v_songs v = Some songs" "s \<in> set songs"
  from r obtain ps where "with_songs e st 1 ps = Some pls"
    by (auto simp: get_user_playlists_def internal_error_def
        split: reply.splits option.splits if_splits)
  from with_songs_from_rows[OF this v] show "from_row st s" .
  then show "albumCover s = img s" by (auto simp: from_row_def)
next
  fix s
  assume r: "get_playlist_songs e st u pid = Response 200 (SongsJson m songs)"
    and s: "s \<in> set songs"
  from r obtain d er where sel: "select_songs (faults e 1) st pid = Reply d er"
    and songs: "songs = map format_song (case d of None \<Rightarrow> [] | Some l \<Rightarrow> l)"
    by (auto simp: get_playlist_songs_def internal_error_def
        split: reply.splits option.splits if_splits)
  show "from_row st s"
  proof (cases d)
    case None
    with songs s show ?thesis by simp
  next
    case (Some rows)
    from select_songs_rows[OF sel[unfolded Some]] songs Some s
    show ?thesis by (auto intro: formatted_from_row)
  qed
  then show "albumCover s = img s" by (auto simp: from_row_def)
next
  fix s
  assume r: "add_songs e st u pid req = (Response 200 (SongsJson m' songs'), st')"
    and s: "s \<in> set songs'"
  from r obtain f t rows new where ins: "insert_songs f t st new = (Reply (Some rows) None, st')"
    and songs: "songs' = map format_song rows"
    by (auto simp: add_songs_def internal_error_def Let_def
        split: reply.splits option.splits if_splits prod.splits)
  from insert_songs_accepted[OF ins] have "set rows \<subseteq> set (playlist_songs st')" by auto
  with songs s show "from_row st' s" by (auto intro: formatted_from_row)
  then show "albumCover s = img s" by (auto simp: from_row_def)
qed


lemma sorted_example:
  "sort_by song_le (songs_of st_songs ''p1'') = [ps_example ''Song A'' 1, ps_example ''Song Z'' 4]"
  by (simp add: songs_of_def st_songs_def ps_example_def sort_by_def song_le_def)

lemma select_songs_example:
  "select_songs None st_songs ''p1''
     = Reply (Some [ps_example ''Song A'' 1, ps_example ''Song Z'' 4]) None"
  by (simp add: select_songs_def sorted_example round_trip_def)

lemma select_playlist_example:
  "select_playlist None st_songs ''p1'' = Reply (Some (hd (playlists st_songs))) None"
  by (simp add: select_playlist_def round_trip_def single_def st_songs_def)

lemma get_songs_example:
  "get_playlist_songs e_ok st_songs ''u1'' ''p1''
     = Response 200 (SongsJson None
         [format_song (ps_example ''Song A'' 1), format_song (ps_example ''Song Z'' 4)])"
proof -
  have "\<not> not_owned (Some (hd (playlists st_songs))) ''u1''"
    by (simp add: not_owned_def st_songs_def)
  then show ?thesis
    by (simp add: get_playlist_songs_def e_ok_def select_songs_example select_playlist_example)
qed

lemma get_user_example:
  "get_user_playlists e_ok st_songs ''u1''
     = Response 200 (PlaylistsJson
         [playlist_json (hd (playlists st_songs)) (Some
           [format_song (ps_example ''Song A'' 1), format_song (ps_example ''Song Z'' 4)])])"
proof -
  have "select_user_playlists None st_songs ''u1''
      = Reply (Some [hd (playlists st_songs)]) None"
    by (simp add: select_user_playlists_def round_trip_def st_songs_def sort_by_def)
  moreover have "p_id (hd (playlists st_songs)) = ''p1''" by (simp add: st_songs_def)
  ultimately show ?thesis
    by (simp add: get_user_playlists_def e_ok_def select_songs_example)
qed

lemma add_songs_example:
  "add_songs e_ok st_songs ''u1'' ''p1'' (Some [song_req ''Song A'', song_req ''Song B''])
     = (Response 200 (SongsJson (Some ''Successfully added 1 song(s) to playlist'')
          [\<lparr> title = ''Song B'', src = Some ''t.mp3'', img = Some ''t.png'', albumId = None,
             albumCover = Some ''t.png'', artist = Some ''Ann'', position = Some 5,
             addedAt = 100 \<rparr>]),
        snd (add_songs e_ok st_songs ''u1'' ''p1'' (Some [song_req ''Song A'', song_req ''Song B''])))"
  by (simp add: add_songs_def e_ok_def st_songs_def st_empty_def song_req_def ps_example_def
      select_playlist_def round_trip_def single_def not_owned_def select_top_position_def
      songs_of_def desc_first_def next_position_def select_titles_in_def song_title_of_def
      js_or_def truthy_def songs_to_add_def enumerate_eq_zip insert_songs_def
      List.map_filter_def row_ok_def varchar_def varchar_null_def Let_def upt_rec stored_def format_song_def)

theorem album_cover_is_song_img_witness:
  "get_playlist_songs e_ok st_songs ''u1'' ''p1''
     = Response 200 (SongsJson None
         [format_song (ps_example ''Song A'' 1), format_song (ps_example ''Song Z'' 4)])
   \<and> albumCover (format_song (ps_example ''Song A'' 1)) = Some ''s.png''
   \<and> img (format_song (ps_example ''Song A'' 1)) = Some ''s.png''
   \<and> from_row st_songs (format_song (ps_example ''Song Z'' 4))
   \<and> (\<exists>v. get_user_playlists e_ok st_songs ''u1'' = Response 200 (PlaylistsJson [v])
        \<and> v_songs v = Some [format_song (ps_example ''Song A'' 1),
             format_song (ps_example ''Song Z'' 4)])
   \<and> (\<exists>s. fst (add_songs e_ok st_songs ''u1'' ''p1''
              (Some [song_req ''Song A'', song_req ''Song B'']))
          = Response 200 (SongsJson (Some ''Successfully added 1 song(s) to playlist'') [s])
        \<and> img s = Some ''t.png'' \<and> albumCover s = img s)"
proof -
  let ?a = "format_song (ps_example ''Song A'' 1)"
  let ?z = "format_song (ps_example ''Song Z'' 4)"
  let ?v = "playlist_json (hd (playlists st_songs)) (Some [?a, ?z])"
  let ?n = "\<lparr> title = ''Song B'', src = Some ''t.mp3'', img = Some ''t.png'', albumId = None,
             albumCover = Some ''t.png'', artist = Some ''Ann'', position = Some 5,
             addedAt = 100 \<rparr>"
  note T = album_cover_is_song_img[of e_ok st_songs "''u1''" "[?v]" "''p1''" None "[?a, ?z]"
      "Some [song_req ''Song A'', song_req ''Song B'']"
      "Some ''Successfully added 1 song(s) to playlist''" "[?n]"
      "snd (add_songs e_ok st_songs ''u1'' ''p1'' (Some [song_req ''Song A'', song_req ''Song B'']))"]
  from T get_songs_example have a: "albumCover ?a = img ?a" "from_row st_songs ?z" by simp_all
  have i: "img ?a = Some ''s.png''" by (simp add: format_song_def ps_example_def)
  from T get_user_example have u: "\<forall>s \<in> set [?a, ?z]. albumCover s = img s"
    by (simp add: playlist_json_def)
  from T add_songs_example have n: "albumCover ?n = img ?n" by simp
  have vs: "v_songs ?v = Some [?a, ?z]" by (simp add: playlist_json_def)
  have e3: "fst (add_songs e_ok st_songs ''u1'' ''p1''
              (Some [song_req ''Song A'', song_req ''Song B'']))
          = Response 200 (SongsJson (Some ''Successfully added 1 song(s) to playlist'') [?n])"
    using add_songs_example by (metis fst_conv)
  have "\<exists>s. fst (add_songs e_ok st_songs ''u1'' ''p1''
              (Some [song_req ''Song A'', song_req ''Song B'']))
          = Response 200 (SongsJson (Some ''Successfully added 1 song(s) to playlist'') [s])
        \<and> img s = Some ''t.png'' \<and> albumCover s = img s"
    using e3 n by (intro exI[of _ ?n]) simp
  moreover have "\<exists>v. get_user_playlists e_ok st_songs ''u1'' = Response 200 (PlaylistsJson [v])
        \<and> v_songs v = Some [?a, ?z]"
    using get_user_example vs by blast
  ultimately show ?thesis using get_songs_example a i by simp
qed

lemma apply_update_id [simp]: "p_id (apply_update d p) = p_id p"
  by (simp add: apply_update_def)

lemma filter_updated_same:
  "filter (\<lambda>q. p_id q = pid) (map (\<lambda>p. if p_id p = pid then apply_update d p else p) xs)
     = map (apply_update d) (filter (\<lambda>q. p_id q = pid) xs)"
  by (induction xs) auto

lemma filter_updated_others:
  "filter (\<lambda>q. p_id q \<noteq> pid) (map (\<lambda>p. if p_id p = pid then apply_update d p else p) xs)
     = filter (\<lambda>q. p_id q \<noteq> pid) xs"
  by (induction xs) auto

lemma single_not_thrown: "single rows \<noteq> Thrown"
  by (simp add: single_def split: list.splits)

lemma round_trip_not_thrown: "f \<noteq> Some Throw \<Longrightarrow> r \<noteq> Thrown \<Longrightarrow> round_trip f r \<noteq> Thrown"
  by (auto simp: round_trip_def split: option.splits fault.splits)

lemma single_Some: "single rows = Reply (Some x) er \<Longrightarrow> rows = [x]"
  by (auto simp: single_def split: list.splits)

lemma select_playlist_Some:
  "select_playlist f st pid = Reply (Some p) er
     \<Longrightarrow> filter (\<lambda>q. p_id q = pid) (playlists st) = [p]"
  by (auto simp: select_playlist_def round_trip_def split: option.splits fault.splits
      dest: single_Some)

lemma select_playlist_not_owned:
  assumes "\<not> (\<exists>p \<in> set (playlists st). p_id p = pid \<and> p_user_id p = u)"
    and "select_playlist f st pid = Reply d er"
  shows "not_owned d u"
proof (cases d)
  case None
  then show ?thesis by (simp add: not_owned_def)
next
  case (Some p)
  from select_playlist_Some[OF assms(2)[unfolded Some]]
  have "p \<in> set (filter (\<lambda>q. p_id q = pid) (playlists st))" by simp
  with assms(1) Some show ?thesis by (auto simp: not_owned_def)
qed

lemma trim_last:
  assumes "trim s \<noteq> []"
  shows "\<not> is_space (last (trim s))"
proof -
  from assms have ne: "dropWhile is_space (rev (dropWhile is_space s)) \<noteq> []"
    by (simp add: trim_def)
  then have "last (trim s) = hd (dropWhile is_space (rev (dropWhile is_space s)))"
    by (simp add: trim_def last_rev)
  with hd_dropWhile[OF ne] show ?thesis by simp
qed

text \<open>
  A trimmed string does not end in a space, so a VARCHAR column keeps it as it is or
  refuses it.
\<close>

lemma varchar_trim:
  "varchar n (trim s) = (if length (trim s) \<le> n then Some (trim s) else None)"
proof (cases "length (trim s) \<le> n")
  case True
  then show ?thesis by (simp add: varchar_def)
next
  case False
  then have ne: "trim s \<noteq> []" and dn: "drop n (trim s) \<noteq> []" by auto
  from False have "n < length (trim s)" by simp
  then have "last (drop n (trim s)) = last (trim s)" by (rule last_drop)
  with trim_last[OF ne] have "last (drop n (trim s)) \<noteq> CHR '' ''"
    by (auto simp: is_space_def)
  moreover from dn have "last (drop n (trim s)) \<in> set (drop n (trim s))" by (rule last_in_set)
  ultimately have "\<not> list_all (\<lambda>c. c = CHR '' '') (drop n (trim s))"
    by (auto simp: list_all_iff)
  with False show ?thesis by (simp add: varchar_def)
qed

lemma varchar_null_trimmed:
  "varchar_null n (map_option (\<lambda>x. trim (the x)) v) = Some m
     \<Longrightarrow> m = map_option (\<lambda>x. trim (the x)) v"
  by (cases v) (auto simp: varchar_null_def varchar_trim split: if_splits)

lemma update_playlist_accepted:
  assumes "update_playlist f st pid d = (Reply (Some p') None, st')"
    and "filter (\<lambda>q. p_id q = pid) (playlists st) = [p]"
    and "\<And>m. varchar_null 200 (ud_name d) = Some m \<Longrightarrow> m = ud_name d"
  shows "p' = apply_update d p
    \<and> st' = st\<lparr>playlists := map (\<lambda>p. if p_id p = pid then apply_update d p else p) (playlists st)\<rparr>"
proof -
  from assms(1) obtain m where m: "varchar_null 200 (ud_name d) = Some m"
    by (cases "varchar_null 200 (ud_name d)")
      (auto simp: update_playlist_def split: option.splits fault.splits)
  from assms(3)[OF m] have "d\<lparr>ud_name := m\<rparr> = d" by simp
  with assms(1,2) m show ?thesis
    by (auto simp: update_playlist_def Let_def filter_updated_same
        split: option.splits fault.splits if_splits dest!: single_Some)
qed

text \<open>
  C7. The update route answers 404 "Playlist not found", and writes nothing, when no
  playlist with this id belongs to the caller, whether the id is unknown or the playlist
  is another user's (the ownership read not throwing). When it answers 200, the one row
  with this id has the trimmed name if a name was sent and its old name otherwise, the
  sent description and cover image where sent (null included) and the old ones
  otherwise, the time of the request as its updated-timestamp, and its id, owner and
  creation time as before; no other row and no other table has changed.
\<close>

theorem put_playlist_partial_update:
  "(faults e 0 \<noteq> Some Throw
      \<and> \<not> (\<exists>p \<in> set (playlists st). p_id p = pid \<and> p_user_id p = u)
    \<longrightarrow> put_playlist e st u pid b = (Response 404 (ErrorJson ''Playlist not found''), st))
   \<and> (put_playlist e st u pid b = (r, st') \<and> status r = 200
    \<longrightarrow> (\<exists>p p'. filter (\<lambda>q. p_id q = pid) (playlists st) = [p] \<and> p_user_id p = u
          \<and> filter (\<lambda>q. p_id q = pid) (playlists st') = [p']
          \<and> body r = PlaylistJson ''Playlist updated successfully'' (playlist_json p' None)
          \<and> (up_name b = None \<longrightarrow> p_name p' = p_name p)
          \<and> (\<forall>n. up_name b = Some n \<longrightarrow> n \<noteq> None \<and> p_name p' = trim (the n))
          \<and> (up_description b = None \<longrightarrow> p_description p' = p_description p)
          \<and> (\<forall>v. up_description b = Some v \<longrightarrow> p_description p' = v)
          \<and> (up_coverImage b = None \<longrightarrow> p_cover_image p' = p_cover_image p)
          \<and> (\<forall>v. up_coverImage b = Some v \<longrightarrow> p_cover_image p' = v)
          \<and> p_updated_at p' = now e
          \<and> p_id p' = p_id p \<and> p_user_id p' = p_user_id p \<and> p_created_at p' = p_created_at p
          \<and> filter (\<lambda>q. p_id q \<noteq> pid) (playlists st')
              = filter (\<lambda>q. p_id q \<noteq> pid) (playlists st)
          \<and> length (playlists st') = length (playlists st)
          \<and> favorites st' = favorites st \<and> playlist_songs st' = playlist_songs st
          \<and> user_profiles st' = user_profiles st \<and> auth_users st' = auth_users st))"
proof (intro conjI impI)
  assume a: "faults e 0 \<noteq> Some Throw
      \<and> \<not> (\<exists>p \<in> set (playlists st). p_id p = pid \<and> p_user_id p = u)"
  then have "select_playlist (faults e 0) st pid \<noteq> Thrown"
    unfolding select_playlist_def by (intro round_trip_not_thrown single_not_thrown) simp
  then obtain d er where sel: "select_playlist (faults e 0) st pid = Reply d er"
    by (cases "select_playlist (faults e 0) st pid") auto
  from a select_playlist_not_owned[OF _ sel] have "not_owned d u" by blast
  with sel show "put_playlist e st u pid b = (Response 404 (ErrorJson ''Playlist not found''), st)"
    by (simp add: put_playlist_def)
next
  assume a: "put_playlist e st u pid b = (r, st') \<and> status r = 200"
  then have run: "put_playlist e st u pid b = (r, st')" and ok: "status r = 200" by simp_all
  from run ok obtain d er where sel: "select_playlist (faults e 0) st pid = Reply d er"
    by (cases "select_playlist (faults e 0) st pid")
      (auto simp: put_playlist_def internal_error_def)
  from run ok sel have own: "\<not> not_owned d u"
    by (auto simp: put_playlist_def split: if_splits)
  then obtain p where d: "d = Some p" and pu: "p_user_id p = u"
    by (cases d) (auto simp: not_owned_def)
  from select_playlist_Some[OF sel[unfolded d]]
  have one: "filter (\<lambda>q. p_id q = pid) (playlists st) = [p]" .
  from run ok sel own have nm: "up_name b \<noteq> Some None"
    by (auto simp: put_playlist_def internal_error_def)
  define ud where "ud = \<lparr> ud_name = map_option (\<lambda>n. trim (the n)) (up_name b),
      ud_description = up_description b, ud_cover_image = up_coverImage b,
      ud_updated_at = now e \<rparr>"
  obtain rep st'' where upd: "update_playlist (faults e 1) st pid ud = (rep, st'')"
    by (cases "update_playlist (faults e 1) st pid ud")
  from run sel own nm upd
  have res: "(r, st') = (case rep of Thrown \<Rightarrow> (internal_error, st'')
      | Reply playlist err \<Rightarrow>
          if err \<noteq> None then (Response 500 (ErrorJson ''Failed to update playlist''), st'')
          else (case playlist of None \<Rightarrow> (internal_error, st'')
                | Some p \<Rightarrow> (Response 200 (PlaylistJson ''Playlist updated successfully''
                     (playlist_json p None)), st'')))"
    by (cases "up_name b") (auto simp: put_playlist_def ud_def Let_def split: option.splits)
  from res ok obtain p' where rep: "rep = Reply (Some p') None"
    by (cases rep) (auto simp: internal_error_def split: if_splits option.splits)
  have keep: "\<And>m. varchar_null 200 (ud_name ud) = Some m \<Longrightarrow> m = ud_name ud"
    by (simp add: ud_def varchar_null_trimmed)
  from update_playlist_accepted[OF upd[unfolded rep] one keep]
  have p': "p' = apply_update ud p"
    and st'': "st'' = st\<lparr>playlists :=
        map (\<lambda>p. if p_id p = pid then apply_update ud p else p) (playlists st)\<rparr>"
    by simp_all
  from res rep have r: "r = Response 200 (PlaylistJson ''Playlist updated successfully''
      (playlist_json p' None))" and st': "st' = st''" by simp_all
  have f1: "filter (\<lambda>q. p_id q = pid) (playlists st') = [p']"
    by (simp add: st' st'' filter_updated_same one p')
  have f2: "filter (\<lambda>q. p_id q \<noteq> pid) (playlists st')
      = filter (\<lambda>q. p_id q \<noteq> pid) (playlists st)"
    by (simp add: st' st'' filter_updated_others)
  have fields: "(up_name b = None \<longrightarrow> p_name p' = p_name p)
      \<and> (\<forall>n. up_name b = Some n \<longrightarrow> n \<noteq> None \<and> p_name p' = trim (the n))
      \<and> (up_description b = None \<longrightarrow> p_description p' = p_description p)
      \<and> (\<forall>v. up_description b = Some v \<longrightarrow> p_description p' = v)
      \<and> (up_coverImage b = None \<longrightarrow> p_cover_image p' = p_cover_image p)
      \<and> (\<forall>v. up_coverImage b = Some v \<longrightarrow> p_cover_image p' = v)
      \<and> p_updated_at p' = now e
      \<and> p_id p' = p_id p \<and> p_user_id p' = p_user_id p \<and> p_created_at p' = p_created_at p"
    using nm by (auto simp: p' ud_def apply_update_def)
  have frame: "length (playlists st') = length (playlists st)
      \<and> favorites st' = favorites st \<and> playlist_songs st' = playlist_songs st
      \<and> user_profiles st' = user_profiles st \<and> auth_users st' = auth_users st"
    by (simp add: st' st'')
  from one pu f1 f2 r fields frame
  show "\<exists>p p'. filter (\<lambda>q. p_id q = pid) (playlists st) = [p] \<and> p_user_id p = u
          \<and> filter (\<lambda>q. p_id q = pid) (playlists st') = [p']
          \<and> body r = PlaylistJson ''Playlist updated successfully'' (playlist_json p' None)
          \<and> (up_name b = None \<longrightarrow> p_name p' = p_name p)
          \<and> (\<forall>n. up_name b = Some n \<longrightarrow> n \<noteq> None \<and> p_name p' = trim (the n))
          \<and> (up_description b = None \<longrightarrow> p_description p' = p_description p)
          \<and> (\<forall>v. up_description b = Some v \<longrightarrow> p_description p' = v)
          \<and> (up_coverImage b = None \<longrightarrow> p_cover_image p' = p_cover_image p)
          \<and> (\<forall>v. up_coverImage b = Some v \<longrightarrow> p_cover_image p' = v)
          \<and> p_updated_at p' = now e
          \<and> p_id p' = p_id p \<and> p_user_id p' = p_user_id p \<and> p_created_at p' = p_created_at p
          \<and> filter (\<lambda>q. p_id q \<noteq> pid) (playlists st')
              = filter (\<lambda>q. p_id q \<noteq> pid) (playlists st)
          \<and> length (playlists st') = length (playlists st)
          \<and> favorites st' = favorites st \<and> playlist_songs st' = playlist_songs st
          \<and> user_profiles st' = user_profiles st \<and> auth_users st' = auth_users st"
    by (intro exI[of _ p] exI[of _ p']) simp
qed


lemma trim_example: "trim ''  Road Trip '' = ''Road Trip''"
  by (simp add: trim_def is_space_def)

lemma put_example_status:
  "status (fst (put_playlist e_ok st_songs ''u1'' ''p1'' upd_example)) = 200"
  by (simp add: put_playlist_def e_ok_def st_songs_def st_empty_def upd_example_def
      select_playlist_def round_trip_def single_def not_owned_def update_playlist_def
      varchar_def varchar_null_def Let_def trim_example apply_update_def)

theorem put_playlist_partial_update_witness:
  "faults e_ok 0 \<noteq> Some Throw
   \<and> \<not> (\<exists>p \<in> set (playlists st_songs). p_id p = ''p1'' \<and> p_user_id p = ''u2'')
   \<and> put_playlist e_ok st_songs ''u2'' ''p1'' upd_example
       = (Response 404 (ErrorJson ''Playlist not found''), st_songs)
   \<and> status (fst (put_playlist e_ok st_songs ''u1'' ''p1'' upd_example)) = 200
   \<and> (\<exists>p'. filter (\<lambda>q. p_id q = ''p1'')
          (playlists (snd (put_playlist e_ok st_songs ''u1'' ''p1'' upd_example))) = [p']
        \<and> p_name p' = ''Road Trip'' \<and> p_description p' = Some ''trip songs''
        \<and> p_cover_image p' = None \<and> p_updated_at p' = 100 \<and> p_created_at p' = 10)"
proof -
  let ?run = "put_playlist e_ok st_songs ''u1'' ''p1'' upd_example"
  have h1: "faults e_ok 0 \<noteq> Some Throw
      \<and> \<not> (\<exists>p \<in> set (playlists st_songs). p_id p = ''p1'' \<and> p_user_id p = ''u2'')"
    by (simp add: e_ok_def st_songs_def)
  have c1: "put_playlist e_ok st_songs ''u2'' ''p1'' upd_example
       = (Response 404 (ErrorJson ''Playlist not found''), st_songs)"
    by (rule put_playlist_partial_update[of e_ok st_songs "''p1''" "''u2''" upd_example,
          THEN conjunct1, THEN mp, OF h1])
  have h2: "?run = (fst ?run, snd ?run) \<and> status (fst ?run) = 200"
    using put_example_status by simp
  from put_playlist_partial_update[of e_ok st_songs "''p1''" "''u1''" upd_example
      "fst ?run" "snd ?run", THEN conjunct2, THEN mp, OF h2]
  obtain p p' where P: "filter (\<lambda>q. p_id q = ''p1'') (playlists st_songs) = [p]"
    "filter (\<lambda>q. p_id q = ''p1'') (playlists (snd ?run)) = [p']"
    "\<forall>n. up_name upd_example = Some n \<longrightarrow> n \<noteq> None \<and> p_name p' = trim (the n)"
    "up_description upd_example = None \<longrightarrow> p_description p' = p_description p"
    "\<forall>v. up_coverImage upd_example = Some v \<longrightarrow> p_cover_image p' = v"
    "p_updated_at p' = now e_ok" "p_created_at p' = p_created_at p"
    by (elim exE conjE) (rule that, assumption+)
  from P(1) have p: "p = hd (playlists st_songs)" by (simp add: st_songs_def)
  from P(3) have "p_name p' = ''Road Trip''" by (simp add: upd_example_def trim_example)
  moreover from P(4) have "p_description p' = Some ''trip songs''"
    by (simp add: upd_example_def p st_songs_def)
  moreover from P(5) have "p_cover_image p' = None" by (simp add: upd_example_def)
  moreover from P(6) have "p_updated_at p' = 100" by (simp add: e_ok_def)
  moreover from P(7) have "p_created_at p' = 10" by (simp add: p st_songs_def)
  ultimately have "\<exists>p'. filter (\<lambda>q. p_id q = ''p1'') (playlists (snd ?run)) = [p']
        \<and> p_name p' = ''Road Trip'' \<and> p_description p' = Some ''trip songs''
        \<and> p_cover_image p' = None \<and> p_updated_at p' = 100 \<and> p_created_at p' = 10"
    using P(2) by blast
  with h1 c1 put_example_status show ?thesis by (intro conjI) simp_all
qed

text \<open>
  What does hold of the create route: a user who owns no playlist gets any non-blank name
  of at most 200 characters, trimmed, whatever the names of other users' playlists.
\<close>

lemma select_playlist_named_none:
  assumes "\<not> (\<exists>p \<in> set (playlists st). p_user_id p = u)"
  shows "select_playlist_named None st u n = Reply None (Some (DbError ''PGRST116''
            ''JSON object requested, multiple (or no) rows returned''))"
proof -
  from assms have "filter (\<lambda>p. p_user_id p = u \<and> ilike n (p_name p)) (playlists st) = []"
    by (auto simp: filter_empty_conv)
  then show ?thesis by (simp add: select_playlist_named_def round_trip_def single_def)
qed

lemma create_playlist_other_owner:
  assumes "truthy (c_name b)" and "trim (the (c_name b)) \<noteq> []"
    and "length (trim (the (c_name b))) \<le> 200"
    and "faults e 0 = None" and "faults e 1 = None"
    and "new_id e \<notin> set (map p_id (playlists st))"
    and "\<not> (\<exists>p \<in> set (playlists st). p_user_id p = u)"
  shows "\<exists>row. create_playlist e st u b
      = (Response 200 (PlaylistJson ''Playlist created successfully''
           (playlist_json row (Some []))), st\<lparr>playlists := playlists st @ [row]\<rparr>)
     \<and> p_name row = trim (the (c_name b)) \<and> p_user_id row = u"
proof -
  let ?row = "\<lparr> p_id = new_id e, p_user_id = u, p_name = trim (the (c_name b)),
      p_description = js_or (c_description b) None,
      p_cover_image = js_or (c_coverImage b) None,
      p_created_at = now e, p_updated_at = now e \<rparr>"
  from assms select_playlist_named_none[OF assms(7)]
  have "create_playlist e st u b
      = (Response 200 (PlaylistJson ''Playlist created successfully''
           (playlist_json ?row (Some []))), st\<lparr>playlists := playlists st @ [?row]\<rparr>)"
    by (simp add: create_playlist_def Let_def insert_playlist_def varchar_def)
  then show ?thesis by (intro exI[of _ ?row]) simp
qed

lemma lower_examples:
  "map lower ''a_c'' = ''a_c''" "map lower ''abc'' = ''abc''" "map lower ''A_C'' = ''a_c''"
  by (simp_all add: lower_def capitals_def smalls_def)

lemma ilike_examples:
  "ilike ''a_c'' ''abc''" "ilike ''A_C'' ''a_c''" "ilike ''A_C'' ''abc''"
  by (simp_all add: ilike_def lower_def capitals_def smalls_def)

lemma trim_examples: "trim ''a_c'' = ''a_c''" "trim ''A_C'' = ''A_C''"
  by (simp_all add: trim_def is_space_def)

text \<open>
  C4. The create route at two requests. A user who owns one playlist, named "abc", asks
  for the name "a_c": the pre-read takes the name as a pattern, finds "abc", and the
  route answers 400 "already exists" although the user has no playlist of that name. A
  user who owns the playlists "a_c" and "abc" asks for "A_C": the pattern matches both
  rows, the single-row read returns nothing, the insert goes through (the table has no
  uniqueness of names), and the route answers 200 although "a_c" is the same name up to
  case.
\<close>

theorem create_playlist_wildcards:
  "create_playlist e_ok st_songs ''u1'' (create_req ''a_c'')
     = (Response 400 (ErrorJson (already_exists ''a_c'')), st_songs)
   \<and> \<not> (\<exists>p \<in> set (playlists st_songs). p_user_id p = ''u1'' \<and> same_name (p_name p) ''a_c'')
   \<and> status (fst (create_playlist e_ok st_two ''u1'' (create_req ''A_C''))) = 200
   \<and> (\<exists>p \<in> set (playlists st_two). p_user_id p = ''u1'' \<and> same_name (p_name p) ''A_C'')"
proof -
  have a: "select_playlist_named None st_songs ''u1'' ''a_c''
      = Reply (Some (hd (playlists st_songs))) None"
    by (simp add: select_playlist_named_def round_trip_def single_def st_songs_def
        ilike_examples)
  have c1: "create_playlist e_ok st_songs ''u1'' (create_req ''a_c'')
     = (Response 400 (ErrorJson (already_exists ''a_c'')), st_songs)"
    by (simp add: create_playlist_def create_req_def truthy_def trim_examples e_ok_def a)
  have c2: "\<not> (\<exists>p \<in> set (playlists st_songs). p_user_id p = ''u1'' \<and> same_name (p_name p) ''a_c'')"
    by (simp add: st_songs_def same_name_def lower_def capitals_def smalls_def)
  have b: "select_playlist_named None st_two ''u1'' ''A_C''
      = Reply None (Some (DbError ''PGRST116''
            ''JSON object requested, multiple (or no) rows returned''))"
    by (simp add: select_playlist_named_def round_trip_def single_def st_two_def
        ilike_examples)
  have ins: "fst (insert_playlist None st_two
        \<lparr> p_id = ''id-1'', p_user_id = ''u1'', p_name = ''A_C'', p_description = None,
          p_cover_image = None, p_created_at = 100, p_updated_at = 100 \<rparr>)
      = Reply (Some \<lparr> p_id = ''id-1'', p_user_id = ''u1'', p_name = ''A_C'',
          p_description = None, p_cover_image = None, p_created_at = 100,
          p_updated_at = 100 \<rparr>) None"
    by (simp add: insert_playlist_def st_two_def varchar_def)
  have c3: "status (fst (create_playlist e_ok st_two ''u1'' (create_req ''A_C''))) = 200"
    using ins
    by (auto simp: create_playlist_def create_req_def truthy_def trim_examples e_ok_def b
        js_or_def Let_def split: prod.splits)
  have c4: "\<exists>p \<in> set (playlists st_two). p_user_id p = ''u1'' \<and> same_name (p_name p) ''A_C''"
    by (simp add: st_two_def same_name_def lower_def capitals_def smalls_def)
  from c1 c2 c3 c4 show ?thesis by blast
qed

theorem create_playlist_wildcards_witness:
  "fst (create_playlist e_ok st_songs ''u1'' (create_req ''a_c''))
     = Response 400 (ErrorJson (already_exists ''a_c''))
   \<and> status (fst (create_playlist e_ok st_two ''u1'' (create_req ''A_C''))) = 200"
  using create_playlist_wildcards by simp

section \<open>Properties of the authentication middleware\<close>

lemma get_user_absent:
  assumes "f \<noteq> Some Throw" and "\<not> (\<exists>a \<in> set (auth_users st). a_id a = uid)"
  shows "\<exists>er. get_user_by_id f st uid = Reply None (Some er)"
proof -
  from assms(2) have none: "filter (\<lambda>a. a_id a = uid) (auth_users st) = []"
    by (auto simp: filter_empty_conv)
  show ?thesis
  proof (cases f)
    case None
    with none show ?thesis by (simp add: get_user_by_id_def round_trip_def)
  next
    case (Some x)
    with assms(1) obtain er where "x = Fail er" by (cases x) auto
    with Some show ?thesis by (simp add: get_user_by_id_def round_trip_def)
  qed
qed

text \<open>
  C2, as the code has it. A token that \<^verbatim>\<open>jwt.verify\<close> rejects, whatever the cause
  (malformed, bad signature, expired), is answered 403 "Invalid or expired token"; a
  decoded token that the middleware's own expiry check rejects is answered 401 with the
  same message; a token without a user id is answered 401 "Invalid token: missing user
  ID"; a user id the identity provider does not know is answered 401 "Invalid token:
  user not found".
\<close>

theorem auth_failure_signals:
  "(truthy h \<and> verify (the h) = Inl err
      \<longrightarrow> authenticateToken verify e st h
            = Reject (Response 403 (ErrorJson ''Invalid or expired token'')))
   \<and> (truthy h \<and> verify (the h) = Inr d \<and> gate_expired e d
      \<longrightarrow> authenticateToken verify e st h
            = Reject (Response 401 (ErrorJson ''Invalid or expired token'')))
   \<and> (truthy h \<and> verify (the h) = Inr d \<and> \<not> gate_expired e d \<and> \<not> truthy (j_userId d)
      \<longrightarrow> authenticateToken verify e st h
            = Reject (Response 401 (ErrorJson ''Invalid token: missing user ID'')))
   \<and> (truthy h \<and> verify (the h) = Inr d \<and> \<not> gate_expired e d \<and> truthy (j_userId d)
        \<and> faults e 0 \<noteq> Some Throw
        \<and> \<not> (\<exists>a \<in> set (auth_users st). a_id a = the (j_userId d))
      \<longrightarrow> authenticateToken verify e st h
            = Reject (Response 401 (ErrorJson ''Invalid token: user not found'')))"
proof (intro conjI impI)
  assume "truthy h \<and> verify (the h) = Inl err"
  then show "authenticateToken verify e st h
      = Reject (Response 403 (ErrorJson ''Invalid or expired token''))"
    by (simp add: authenticateToken_def invalid_or_expired_def)
next
  assume "truthy h \<and> verify (the h) = Inr d \<and> gate_expired e d"
  then show "authenticateToken verify e st h
      = Reject (Response 401 (ErrorJson ''Invalid or expired token''))"
    by (simp add: authenticateToken_def invalid_or_expired_def)
next
  assume "truthy h \<and> verify (the h) = Inr d \<and> \<not> gate_expired e d \<and> \<not> truthy (j_userId d)"
  then show "authenticateToken verify e st h
      = Reject (Response 401 (ErrorJson ''Invalid token: missing user ID''))"
    by (simp add: authenticateToken_def)
next
  assume a: "truthy h \<and> verify (the h) = Inr d \<and> \<not> gate_expired e d \<and> truthy (j_userId d)
        \<and> faults e 0 \<noteq> Some Throw
        \<and> \<not> (\<exists>a \<in> set (auth_users st). a_id a = the (j_userId d))"
  with get_user_absent[of "faults e 0" st "the (j_userId d)"]
  obtain er where "get_user_by_id (faults e 0) st (the (j_userId d)) = Reply None (Some er)"
    by blast
  with a show "authenticateToken verify e st h
      = Reject (Response 401 (ErrorJson ''Invalid token: user not found''))"
    by (simp add: authenticateToken_def)
qed

text \<open>
  C2 as stated fails: a forged token, a token without a user id and a token of an unknown
  user get three different answers.
\<close>

theorem auth_failures_differ:
  "authenticateToken verify_example e_ok st_auth (Some ''tok-forged'')
     = Reject (Response 403 (ErrorJson ''Invalid or expired token''))
   \<and> authenticateToken verify_example e_ok st_auth (Some ''tok-no-subject'')
     = Reject (Response 401 (ErrorJson ''Invalid token: missing user ID''))
   \<and> authenticateToken verify_example e_ok st_auth (Some ''tok-ghost'')
     = Reject (Response 401 (ErrorJson ''Invalid token: user not found''))
   \<and> authenticateToken verify_example e_ok st_auth (Some ''tok-no-subject'')
     \<noteq> authenticateToken verify_example e_ok st_auth (Some ''tok-forged'')"
  by (simp add: authenticateToken_def verify_example_def payload_example_def truthy_def
      e_ok_def st_auth_def st_empty_def invalid_or_expired_def get_user_by_id_def
      round_trip_def gate_expired_def)

theorem auth_failure_signals_witness:
  "verify_example ''tok-old'' = Inl Expired
   \<and> authenticateToken verify_example e_ok st_auth (Some ''tok-old'')
       = Reject (Response 403 (ErrorJson ''Invalid or expired token''))
   \<and> \<not> truthy (j_userId (payload_example None (Some ''alice'')))
   \<and> authenticateToken verify_example e_ok st_auth (Some ''tok-no-subject'')
       = Reject (Response 401 (ErrorJson ''Invalid token: missing user ID''))
   \<and> \<not> (\<exists>a \<in> set (auth_users st_auth). a_id a = ''u9'')
   \<and> authenticateToken verify_example e_ok st_auth (Some ''tok-ghost'')
       = Reject (Response 401 (ErrorJson ''Invalid token: user not found''))
   \<and> gate_expired (e_ok\<lparr>now := 2000001\<rparr>) (payload_example (Some ''u1'') (Some ''alice''))
   \<and> authenticateToken verify_example (e_ok\<lparr>now := 2000001\<rparr>) st_auth (Some ''tok-alice'')
       = Reject (Response 401 (ErrorJson ''Invalid or expired token''))"
proof -
  have t: "truthy (Some ''tok-old'')" "truthy (Some ''tok-no-subject'')"
    "truthy (Some ''tok-ghost'')" "truthy (Some ''tok-alice'')"
    by (simp_all add: truthy_def)
  have v: "verify_example (the (Some ''tok-old'')) = Inl Expired"
    "verify_example (the (Some ''tok-no-subject'')) = Inr (payload_example None (Some ''alice''))"
    "verify_example (the (Some ''tok-ghost'')) = Inr (payload_example (Some ''u9'') (Some ''ghost''))"
    "verify_example (the (Some ''tok-alice'')) = Inr (payload_example (Some ''u1'') (Some ''alice''))"
    by (simp_all add: verify_example_def)
  have g: "\<not> gate_expired e_ok (payload_example None (Some ''alice''))"
    "\<not> gate_expired e_ok (payload_example (Some ''u9'') (Some ''ghost''))"
    "gate_expired (e_ok\<lparr>now := 2000001\<rparr>) (payload_example (Some ''u1'') (Some ''alice''))"
    by (simp_all add: gate_expired_def payload_example_def e_ok_def)
  have s: "\<not> truthy (j_userId (payload_example None (Some ''alice'')))"
    "truthy (j_userId (payload_example (Some ''u9'') (Some ''ghost'')))"
    "the (j_userId (payload_example (Some ''u9'') (Some ''ghost''))) = ''u9''"
    by (simp_all add: payload_example_def truthy_def)
  have f: "faults e_ok 0 \<noteq> Some Throw" by (simp add: e_ok_def)
  have n: "\<not> (\<exists>a \<in> set (auth_users st_auth). a_id a = ''u9'')" by (simp add: st_auth_def)
  have c1: "authenticateToken verify_example e_ok st_auth (Some ''tok-old'')
       = Reject (Response 403 (ErrorJson ''Invalid or expired token''))"
    using auth_failure_signals[of "Some ''tok-old''" verify_example Expired e_ok st_auth]
      t(1) v(1) by simp
  have c2: "authenticateToken verify_example e_ok st_auth (Some ''tok-no-subject'')
       = Reject (Response 401 (ErrorJson ''Invalid token: missing user ID''))"
    using auth_failure_signals[of "Some ''tok-no-subject''" verify_example _ e_ok st_auth
        "payload_example None (Some ''alice'')"] t(2) v(2) g(1) s(1) by simp
  have c3: "authenticateToken verify_example e_ok st_auth (Some ''tok-ghost'')
       = Reject (Response 401 (ErrorJson ''Invalid token: user not found''))"
    using auth_failure_signals[of "Some ''tok-ghost''" verify_example _ e_ok st_auth
        "payload_example (Some ''u9'') (Some ''ghost'')"] t(3) v(3) g(2) s(2,3) f n by simp
  have c4: "authenticateToken verify_example (e_ok\<lparr>now := 2000001\<rparr>) st_auth (Some ''tok-alice'')
       = Reject (Response 401 (ErrorJson ''Invalid or expired token''))"
    using auth_failure_signals[of "Some ''tok-alice''" verify_example _ "e_ok\<lparr>now := 2000001\<rparr>"
        st_auth "payload_example (Some ''u1'') (Some ''alice'')"] t(4) v(4) g(3) by simp
  from v(1) c1 s(1) c2 n c3 g(3) c4 show ?thesis by simp
qed


lemma get_user_present:
  assumes "get_user_by_id f st uid = Reply (Some a) None"
  shows "a \<in> set (auth_users st) \<and> a_id a = uid"
proof -
  from assms obtain rest where "filter (\<lambda>a. a_id a = uid) (auth_users st) = a # rest"
    by (auto simp: get_user_by_id_def round_trip_def split: option.splits fault.splits list.splits)
  then have "a \<in> set (filter (\<lambda>a. a_id a = uid) (auth_users st))" by simp
  then show ?thesis by simp
qed

text \<open>
  The first two steps of the username chain: the profile's username if it is non-empty,
  otherwise the token's.
\<close>

lemma auth_username_chain:
  assumes "truthy h" and "verify (the h) = Inr d" and "\<not> gate_expired e d"
    and "truthy (j_userId d)"
    and "get_user_by_id (faults e 0) st (the (j_userId d)) = Reply (Some a) None"
    and "select_profile (faults e 1) st (the (j_userId d)) = Reply profile er"
  shows "truthy (map_option u_username profile)
      \<longrightarrow> authenticateToken verify e st h
          = Next \<lparr> userId = a_id a, email = a_email a, username = u_username (the profile) \<rparr>"
    and "\<not> truthy (map_option u_username profile) \<and> truthy (j_username d)
      \<longrightarrow> authenticateToken verify e st h
          = Next \<lparr> userId = a_id a, email = a_email a, username = the (j_username d) \<rparr>"
  using assms by (simp_all add: authenticateToken_def resolve_username_def)

text \<open>
  C6. With no username in the profile store and none in the token, the third operand of
  the chain is evaluated; it reads a variable \<^verbatim>\<open>email\<close> that does not exist, the
  exception is caught, and the request, although its token is valid and its user exists,
  is answered 403 "Invalid or expired token" instead of reaching the handler.
\<close>

theorem auth_email_fallback_throws:
  assumes "truthy h" and "verify (the h) = Inr d" and "\<not> gate_expired e d"
    and "truthy (j_userId d)"
    and "get_user_by_id (faults e 0) st (the (j_userId d)) = Reply (Some a) None"
    and "select_profile (faults e 1) st (the (j_userId d)) = Reply profile er"
    and "\<not> truthy (map_option u_username profile)" and "\<not> truthy (j_username d)"
  shows "resolve_username profile d = Inl (ReferenceError ''email is not defined'')
    \<and> authenticateToken verify e st h
        = Reject (Response 403 (ErrorJson ''Invalid or expired token''))"
  using assms
  by (simp add: authenticateToken_def resolve_username_def invalid_or_expired_def)

theorem auth_email_fallback_throws_witness:
  "truthy (Some ''tok-no-name'')
   \<and> verify_example ''tok-no-name'' = Inr (payload_example (Some ''u1'') None)
   \<and> get_user_by_id (faults e_ok 0) st_auth ''u1''
       = Reply (Some \<lparr> a_id = ''u1'', a_email = ''a@x.com'' \<rparr>) None
   \<and> data (select_profile (faults e_ok 1) st_auth ''u1'') = None
   \<and> j_username (payload_example (Some ''u1'') None) = None
   \<and> authenticateToken verify_example e_ok st_auth (Some ''tok-no-name'')
       = Reject (Response 403 (ErrorJson ''Invalid or expired token''))"
proof -
  let ?d = "payload_example (Some ''u1'') None"
  have t: "truthy (Some ''tok-no-name'')" by (simp add: truthy_def)
  have v: "verify_example (the (Some ''tok-no-name'')) = Inr ?d"
    by (simp add: verify_example_def)
  have g: "\<not> gate_expired e_ok ?d" by (simp add: gate_expired_def payload_example_def e_ok_def)
  have u: "truthy (j_userId ?d)" "the (j_userId ?d) = ''u1''"
    by (simp_all add: payload_example_def truthy_def)
  have a: "get_user_by_id (faults e_ok 0) st_auth ''u1''
       = Reply (Some \<lparr> a_id = ''u1'', a_email = ''a@x.com'' \<rparr>) None"
    by (simp add: get_user_by_id_def round_trip_def e_ok_def st_auth_def)
  have p: "select_profile (faults e_ok 1) st_auth ''u1''
      = Reply None (Some (DbError ''PGRST116''
            ''JSON object requested, multiple (or no) rows returned''))"
    by (simp add: select_profile_def round_trip_def single_def e_ok_def st_auth_def st_empty_def)
  have n: "\<not> truthy (map_option u_username None)" "\<not> truthy (j_username ?d)"
    by (simp_all add: truthy_def payload_example_def)
  have a': "get_user_by_id (faults e_ok 0) st_auth (the (j_userId ?d))
       = Reply (Some \<lparr> a_id = ''u1'', a_email = ''a@x.com'' \<rparr>) None"
    using a by (simp add: u(2))
  have p': "select_profile (faults e_ok 1) st_auth (the (j_userId ?d))
      = Reply None (Some (DbError ''PGRST116''
            ''JSON object requested, multiple (or no) rows returned''))"
    using p by (simp add: u(2))
  from auth_email_fallback_throws[where verify = verify_example
      and h = "Some ''tok-no-name''" and d = "?d", OF t v g u(1) a' p' n]
  have "authenticateToken verify_example e_ok st_auth (Some ''tok-no-name'')
       = Reject (Response 403 (ErrorJson ''Invalid or expired token''))" by simp
  with t v a p show ?thesis by (simp add: payload_example_def)
qed

section \<open>Properties of registration\<close>

lemma create_user_cases:
  assumes "create_user f nid st em = (rep, st1)"
  shows "(\<exists>user. rep = Reply (Some user) None \<and> a_id user = nid
            \<and> st1 = st\<lparr>auth_users := auth_users st @ [user]\<rparr>)
         \<or> (rep = Thrown \<or> (\<exists>er. rep = Reply None (Some er))) \<and> st1 = st"
  using assms by (auto simp: create_user_def split: option.splits fault.splits if_splits)

lemma insert_profile_cases:
  assumes "insert_profile f st r = (rep, st2)"
  shows "(\<exists>row. rep = Reply None None \<and> u_id row = u_id r
            \<and> st2 = st\<lparr>user_profiles := user_profiles st @ [row]\<rparr>)
         \<or> (\<exists>er. rep = Reply None (Some er)) \<and> st2 = st
         \<or> rep = Thrown \<and> st2 = st \<and> f = Some Throw"
proof (cases f)
  case (Some x)
  with assms show ?thesis by (cases x) (auto simp: insert_profile_def)
next
  case None
  show ?thesis
  proof (cases "varchar 50 (u_username r)")
    case no: None
    with None assms show ?thesis by (auto simp: insert_profile_def)
  next
    case (Some n)
    from None Some assms
    have "rep = Reply None None
          \<and> st2 = st\<lparr>user_profiles := user_profiles st @ [r\<lparr>u_username := n\<rparr>]\<rparr>
        \<or> (\<exists>er. rep = Reply None (Some er)) \<and> st2 = st"
      by (auto simp: insert_profile_def split: if_splits)
    then show ?thesis
    proof
      assume "rep = Reply None None
          \<and> st2 = st\<lparr>user_profiles := user_profiles st @ [r\<lparr>u_username := n\<rparr>]\<rparr>"
      then have "\<exists>row. rep = Reply None None \<and> u_id row = u_id r
            \<and> st2 = st\<lparr>user_profiles := user_profiles st @ [row]\<rparr>"
        by (intro exI[of _ "r\<lparr>u_username := n\<rparr>"]) simp
      then show ?thesis by (rule disjI1)
    next
      assume "(\<exists>er. rep = Reply None (Some er)) \<and> st2 = st"
      then show ?thesis by (intro disjI2 disjI1)
    qed
  qed
qed

lemma delete_user_removes:
  "delete_user None st uid = (rep, st3) \<Longrightarrow> \<not> has_identity st3 uid \<and> \<not> has_profile st3 uid"
  by (auto simp: delete_user_def has_identity_def has_profile_def)

text \<open>
  C9, as the code has it. For a registration whose new id is fresh: an answer 200 means
  that the identity and its profile row both exist afterwards; and when the profile insert
  does not throw and the deletion of the identity, if the route calls it, succeeds, then
  after the request the identity exists exactly if its profile row does, and after any
  answer other than 200 neither exists.
\<close>

theorem register_compensation:
  assumes fresh: "\<not> has_identity st (new_id e)" "\<not> has_profile st (new_id e)"
    and run: "register e st b = (r, st')"
  shows "(status r = 200 \<longrightarrow> has_identity st' (new_id e) \<and> has_profile st' (new_id e))
    \<and> (faults e 2 \<noteq> Some Throw \<and> faults e 3 = None
        \<longrightarrow> has_identity st' (new_id e) = has_profile st' (new_id e))
    \<and> (status r \<noteq> 200 \<and> faults e 2 \<noteq> Some Throw \<and> faults e 3 = None
        \<longrightarrow> \<not> has_identity st' (new_id e) \<and> \<not> has_profile st' (new_id e))"
proof -
  let ?n = "new_id e"
  obtain rep1 st1 where c: "create_user (faults e 1) ?n st (the (r_email b)) = (rep1, st1)"
    by (cases "create_user (faults e 1) ?n st (the (r_email b))")
  from create_user_cases[OF c] show ?thesis
  proof (elim disjE exE conjE)
    fix user
    assume u: "rep1 = Reply (Some user) None" "a_id user = ?n"
      "st1 = st\<lparr>auth_users := auth_users st @ [user]\<rparr>"
    let ?row = "\<lparr> u_id = a_id user, u_username = the (r_username b) \<rparr>"
    obtain rep2 st2 where i: "insert_profile (faults e 2) st1 ?row = (rep2, st2)"
      by (cases "insert_profile (faults e 2) st1 ?row")
    obtain rep3 st3 where d: "delete_user (faults e 3) st2 (a_id user) = (rep3, st3)"
      by (cases "delete_user (faults e 3) st2 (a_id user)")
    have id1: "has_identity st1 ?n" "\<not> has_profile st1 ?n"
      using u fresh by (simp_all add: has_identity_def has_profile_def)
    from insert_profile_cases[OF i] show ?thesis
    proof (elim disjE exE conjE)
      fix row
      assume "rep2 = Reply None None" "u_id row = u_id ?row"
        "st2 = st1\<lparr>user_profiles := user_profiles st1 @ [row]\<rparr>"
      with run c u i id1 fresh show ?thesis
        by (auto simp: register_def has_identity_def has_profile_def
            split: if_splits reply.splits)
    next
      fix er assume e2: "rep2 = Reply None (Some er)" "st2 = st1"
      show ?thesis
      proof (cases "faults e 3")
        case None
        from delete_user_removes[OF d[unfolded None]] u(2)
        have "\<not> has_identity st3 ?n \<and> \<not> has_profile st3 ?n" by simp
        with run c u i d e2 None fresh show ?thesis
          by (auto simp: register_def split: if_splits reply.splits)
      next
        case (Some x)
        with run c u i d e2 fresh show ?thesis
          by (auto simp: register_def split: if_splits reply.splits)
      qed
    next
      assume "rep2 = Thrown" "st2 = st1" "faults e 2 = Some Throw"
      with run c u i fresh show ?thesis
        by (auto simp: register_def split: if_splits reply.splits)
    qed
  next
    assume "rep1 = Thrown" "st1 = st"
    with run c fresh show ?thesis
      by (auto simp: register_def split: if_splits reply.splits)
  next
    fix er assume "rep1 = Reply None (Some er)" "st1 = st"
    with run c fresh show ?thesis
      by (auto simp: register_def split: if_splits reply.splits)
  qed
qed


lemma register_example_steps:
  "select_profile_named None st_empty ''alice'' = Reply None (Some (DbError ''PGRST116''
      ''JSON object requested, multiple (or no) rows returned''))"
  "create_user None ''id-1'' st_empty ''a@x.com''
     = (Reply (Some \<lparr> a_id = ''id-1'', a_email = ''a@x.com'' \<rparr>) None,
        st_empty\<lparr>auth_users := [\<lparr> a_id = ''id-1'', a_email = ''a@x.com'' \<rparr>]\<rparr>)"
  by (simp_all add: select_profile_named_def round_trip_def single_def create_user_def
      st_empty_def)

lemma register_flaky:
  "register e_flaky st_empty reg_alice
     = (Response 500 (Text ''500::Registration failed. Please try again.''),
        st_empty\<lparr>auth_users := [\<lparr> a_id = ''id-1'', a_email = ''a@x.com'' \<rparr>]\<rparr>)"
  by (simp add: register_def reg_alice_def e_flaky_def truthy_def register_example_steps
      insert_profile_def delete_user_def varchar_def)

text \<open>
  C9 as stated fails: the profile insert returns an error, the deletion of the identity
  returns an error too, which the route does not look at, and the request ends with the
  identity in the provider and no profile row.
\<close>

theorem register_not_atomic:
  "fst (register e_flaky st_empty reg_alice)
     = Response 500 (Text ''500::Registration failed. Please try again.'')
   \<and> has_identity (snd (register e_flaky st_empty reg_alice)) ''id-1''
   \<and> \<not> has_profile (snd (register e_flaky st_empty reg_alice)) ''id-1''"
  by (simp add: register_flaky has_identity_def has_profile_def)
    (simp add: st_empty_def)

lemma register_insert_fails:
  "register e_insert_fails st_empty reg_alice
     = (Response 500 (Text ''500::Registration failed. Please try again.''), st_empty)"
  by (simp add: register_def reg_alice_def e_insert_fails_def truthy_def
      select_profile_named_def round_trip_def single_def create_user_def
      insert_profile_def delete_user_def st_empty_def varchar_def)

lemma register_succeeds:
  "register e_ok st_empty reg_alice
     = (Response 200 (Text ''200::Registration successful!''),
        st_empty\<lparr>auth_users := [\<lparr> a_id = ''id-1'', a_email = ''a@x.com'' \<rparr>],
                  user_profiles := [\<lparr> u_id = ''id-1'', u_username = ''alice'' \<rparr>]\<rparr>)"
  by (simp add: register_def reg_alice_def e_ok_def truthy_def
      select_profile_named_def round_trip_def single_def create_user_def
      insert_profile_def st_empty_def varchar_def)

theorem register_compensation_witness:
  "\<not> has_identity st_empty ''id-1'' \<and> \<not> has_profile st_empty ''id-1''
   \<and> status (fst (register e_ok st_empty reg_alice)) = 200
   \<and> has_identity (snd (register e_ok st_empty reg_alice)) ''id-1''
   \<and> has_profile (snd (register e_ok st_empty reg_alice)) ''id-1''
   \<and> faults e_insert_fails 2 \<noteq> Some Throw \<and> faults e_insert_fails 3 = None
   \<and> status (fst (register e_insert_fails st_empty reg_alice)) = 500
   \<and> \<not> has_identity (snd (register e_insert_fails st_empty reg_alice)) ''id-1''
   \<and> \<not> has_profile (snd (register e_insert_fails st_empty reg_alice)) ''id-1''"
proof -
  have fresh: "\<not> has_identity st_empty ''id-1''" "\<not> has_profile st_empty ''id-1''"
    by (simp_all add: has_identity_def has_profile_def st_empty_def)
  have n: "new_id e_ok = ''id-1''" "new_id e_insert_fails = ''id-1''"
    by (simp_all add: e_ok_def e_insert_fails_def)
  have f: "faults e_insert_fails 2 \<noteq> Some Throw \<and> faults e_insert_fails 3 = None"
    by (simp add: e_insert_fails_def)
  have s1: "status (fst (register e_ok st_empty reg_alice)) = 200"
    by (simp add: register_succeeds)
  have s2: "status (fst (register e_insert_fails st_empty reg_alice)) = 500"
    by (simp add: register_insert_fails)
  from register_compensation[of st_empty e_ok reg_alice, unfolded n,
      OF fresh prod.collapse[symmetric]] s1
  have a: "has_identity (snd (register e_ok st_empty reg_alice)) ''id-1''
      \<and> has_profile (snd (register e_ok st_empty reg_alice)) ''id-1''" by simp
  from register_compensation[of st_empty e_insert_fails reg_alice, unfolded n,
      OF fresh prod.collapse[symmetric]] s2 f
  have b: "\<not> has_identity (snd (register e_insert_fails st_empty reg_alice)) ''id-1''
      \<and> \<not> has_profile (snd (register e_insert_fails st_empty reg_alice)) ''id-1''" by simp
  from fresh s1 a f s2 b show ?thesis by simp
qed

section \<open>A run through the playlist routes\<close>

text \<open>
  A user creates the playlist "Road Trip", which comes back with no songs; adds "Song A",
  which gets position 1; adds "Song A" again, which is refused because every song is in
  the playlist already; adds "Song B", which gets position 2.
\<close>

lemma scenario_create:
  "create_playlist e_ok st_empty ''u1'' (create_req ''Road Trip'')
     = (Response 200 (PlaylistJson ''Playlist created successfully''
          (playlist_json trip (Some []))), st_empty\<lparr>playlists := [trip]\<rparr>)"
  by (simp add: create_playlist_def create_req_def truthy_def trim_def is_space_def e_ok_def
      select_playlist_named_def round_trip_def single_def st_empty_def insert_playlist_def
      varchar_def js_or_def trip_def Let_def)

lemma scenario_first_add:
  "add_songs e_ok (st_empty\<lparr>playlists := [trip]\<rparr>) ''u1'' ''id-1'' (Some [song_req ''Song A''])
     = (Response 200 (SongsJson (Some ''Successfully added 1 song(s) to playlist'')
          [format_song (trip_song ''Song A'' 1)]),
        st_empty\<lparr>playlists := [trip], playlist_songs := [trip_song ''Song A'' 1]\<rparr>)"
  by (simp add: add_songs_def e_ok_def st_empty_def song_req_def trip_def trip_song_def
      select_playlist_def round_trip_def single_def not_owned_def select_top_position_def
      songs_of_def next_position_def select_titles_in_def song_title_of_def
      js_or_def truthy_def songs_to_add_def enumerate_eq_zip insert_songs_def
      List.map_filter_def row_ok_def varchar_def varchar_null_def Let_def upt_rec stored_def)

lemma scenario_repeat:
  "add_songs e_ok (st_empty\<lparr>playlists := [trip], playlist_songs := [trip_song ''Song A'' 1]\<rparr>)
       ''u1'' ''id-1'' (Some [song_req ''Song A''])
     = (Response 400 (ErrorJson ''All songs are already in the playlist''),
        st_empty\<lparr>playlists := [trip], playlist_songs := [trip_song ''Song A'' 1]\<rparr>)"
  by (simp add: add_songs_def e_ok_def st_empty_def song_req_def trip_def trip_song_def
      select_playlist_def round_trip_def single_def not_owned_def select_top_position_def
      songs_of_def next_position_def select_titles_in_def song_title_of_def
      js_or_def truthy_def songs_to_add_def enumerate_eq_zip Let_def)

lemma scenario_second_add:
  "add_songs e_ok (st_empty\<lparr>playlists := [trip], playlist_songs := [trip_song ''Song A'' 1]\<rparr>)
       ''u1'' ''id-1'' (Some [song_req ''Song B''])
     = (Response 200 (SongsJson (Some ''Successfully added 1 song(s) to playlist'')
          [format_song (trip_song ''Song B'' 2)]),
        st_empty\<lparr>playlists := [trip],
          playlist_songs := [trip_song ''Song A'' 1, trip_song ''Song B'' 2]\<rparr>)"
  by (simp add: add_songs_def e_ok_def st_empty_def song_req_def trip_def trip_song_def
      select_playlist_def round_trip_def single_def not_owned_def select_top_position_def
      songs_of_def next_position_def select_titles_in_def song_title_of_def
      js_or_def truthy_def songs_to_add_def enumerate_eq_zip insert_songs_def
      List.map_filter_def row_ok_def varchar_def varchar_null_def Let_def upt_rec stored_def)

end
